theory Spec2Isabelle
  imports Complex_Main
begin

section \<open>Exceptions\<close>

text \<open>
  Every exception the notebook's code can raise (its own Python, or the tensor and graph
  libraries it calls) is a value: a computation returns \<open>Inl e\<close> when it raises \<open>e\<close> and
  \<open>Inr v\<close> when it returns \<open>v\<close>.
\<close>

datatype error = ValueError | IndexError | RuntimeError | TypeError

definition bindE :: "error + 'a \<Rightarrow> ('a \<Rightarrow> error + 'b) \<Rightarrow> error + 'b" where
  "bindE m f = (case m of Inl e \<Rightarrow> Inl e | Inr v \<Rightarrow> f v)"

definition raises :: "error + 'a \<Rightarrow> bool" where
  "raises m = (case m of Inl e \<Rightarrow> True | Inr v \<Rightarrow> False)"

section \<open>Tensors\<close>

text \<open>
  A tensor is its shape together with its entries, addressed by a multi-index (one index
  per dimension). The entries of the layers' tensors are modelled by real numbers:
  rounding, overflow and NaN are outside that part of the model. The sampling step, whose
  result depends on overflow, is modelled on float values (see below). Entries of \<open>elem\<close>
  at indices outside the shape carry no meaning.
\<close>

record 'a tensor =
  shape :: "nat list"
  elem :: "nat list \<Rightarrow> 'a"

definition numel :: "nat list \<Rightarrow> nat" where
  "numel s = prod_list s"

definition valid_ix :: "nat list \<Rightarrow> nat list \<Rightarrow> bool" where
  "valid_ix s ix = list_all2 (\<lambda>i n. i < n) ix s"

text \<open>Row-major (contiguous) layout: the offset of a multi-index and its inverse.\<close>

fun ravel :: "nat list \<Rightarrow> nat list \<Rightarrow> nat" where
  "ravel (n # s) (i # ix) = i * numel s + ravel s ix"
| "ravel s ix = 0"

fun unravel :: "nat list \<Rightarrow> nat \<Rightarrow> nat list" where
  "unravel [] k = []"
| "unravel (n # s) k = (k div numel s) # unravel s (k mod numel s)"

text \<open>Elementwise functions, and arithmetic with a Python scalar.\<close>

definition tmap :: "('a \<Rightarrow> 'b) \<Rightarrow> 'a tensor \<Rightarrow> 'b tensor" where
  "tmap f t = \<lparr>shape = shape t, elem = (\<lambda>ix. f (elem t ix))\<rparr>"

text \<open>\<open>torch.zeros(shape)\<close>.\<close>

definition zeros :: "nat list \<Rightarrow> real tensor" where
  "zeros s = \<lparr>shape = s, elem = (\<lambda>ix. 0)\<rparr>"

text \<open>
  Broadcasting of two shapes: aligned at the last dimension; two sizes are compatible when
  they are equal or one of them is 1. \<open>bidx s ix\<close> is the index into an operand of shape
  \<open>s\<close> for the index \<open>ix\<close> of the broadcast result.
\<close>

fun bc_rev :: "nat list \<Rightarrow> nat list \<Rightarrow> nat list option" where
  "bc_rev [] ys = Some ys"
| "bc_rev xs [] = Some xs"
| "bc_rev (x # xs) (y # ys) =
     (if x = y \<or> y = 1 then map_option ((#) x) (bc_rev xs ys)
      else if x = 1 then map_option ((#) y) (bc_rev xs ys)
      else None)"

definition broadcast_shapes :: "nat list \<Rightarrow> nat list \<Rightarrow> nat list option" where
  "broadcast_shapes a b = map_option rev (bc_rev (rev a) (rev b))"

definition bidx :: "nat list \<Rightarrow> nat list \<Rightarrow> nat list" where
  "bidx s ix = map2 (\<lambda>n i. if n = 1 then 0 else i) s (drop (length ix - length s) ix)"

definition broadcast_op ::
  "('a \<Rightarrow> 'b \<Rightarrow> 'c) \<Rightarrow> 'a tensor \<Rightarrow> 'b tensor \<Rightarrow> error + 'c tensor" where
  "broadcast_op f a b =
     (case broadcast_shapes (shape a) (shape b) of
        None \<Rightarrow> Inl RuntimeError
      | Some s \<Rightarrow>
          Inr \<lparr>shape = s,
               elem = (\<lambda>ix. f (elem a (bidx (shape a) ix)) (elem b (bidx (shape b) ix)))\<rparr>)"

text \<open>\<open>torch.sum(t)\<close> with no dimension: the sum of all entries (a 0-dimensional tensor,
  modelled by its single entry).\<close>

definition torch_sum :: "real tensor \<Rightarrow> real" where
  "torch_sum t = (\<Sum>k<numel (shape t). elem t (unravel (shape t) k))"

section \<open>Random number generator\<close>

text \<open>
  The global generator of the tensor library is modelled by the sequence of draws it
  still has to deliver: entry \<open>k\<close> is the value of the \<open>k\<close>-th next draw. A consumer
  takes as many draws as it needs, reads them as the variates it asks for (normal ones for
  \<open>randn\<close>, uniform ones for a dropout mask) and leaves the rest. Seeding the generator
  fixes the sequence. The distribution of the draws is not modelled: a statement about
  every generator covers every seed.
\<close>

type_synonym generator = "nat \<Rightarrow> real"

definition advance :: "nat \<Rightarrow> generator \<Rightarrow> generator" where
  "advance n g = (\<lambda>k. g (k + n))"

text \<open>\<open>torch.randn_like(t)\<close>: one draw per entry of \<open>t\<close>, in row-major order.\<close>

definition randn_like :: "'a tensor \<Rightarrow> generator \<Rightarrow> real tensor \<times> generator" where
  "randn_like t g =
     (\<lparr>shape = shape t, elem = (\<lambda>ix. g (ravel (shape t) ix))\<rparr>, advance (numel (shape t)) g)"

section \<open>Float values\<close>

text \<open>
  The values a \<open>float32\<close> tensor entry can take: a finite number, plus or minus infinity,
  or NaN. Arithmetic follows IEEE 754 on the special values: a finite result beyond the
  largest finite \<open>float32\<close>, \<^verbatim>\<open>(2 - 2**-23) * 2**127\<close>, overflows to an infinity, zero
  times infinity and infinity minus infinity are NaN, and NaN propagates. Rounding of
  finite results, underflow and the sign of zero are not modelled.
\<close>

datatype f32 = Fin real | PInf | NInf | NaN

definition f32_max :: real where
  "f32_max = 2 ^ 128 - 2 ^ 104"

definition overflow :: "real \<Rightarrow> f32" where
  "overflow r = (if f32_max < r then PInf else if r < - f32_max then NInf else Fin r)"

definition is_f32 :: "f32 \<Rightarrow> bool" where
  "is_f32 v = (case v of Fin r \<Rightarrow> \<bar>r\<bar> \<le> f32_max | _ \<Rightarrow> True)"

definition finite_f32 :: "f32 \<Rightarrow> bool" where
  "finite_f32 v = (case v of Fin r \<Rightarrow> True | _ \<Rightarrow> False)"

fun f_mul :: "f32 \<Rightarrow> f32 \<Rightarrow> f32" where
  "f_mul NaN v = NaN"
| "f_mul v NaN = NaN"
| "f_mul (Fin a) (Fin b) = overflow (a * b)"
| "f_mul (Fin a) PInf = (if a = 0 then NaN else if 0 < a then PInf else NInf)"
| "f_mul (Fin a) NInf = (if a = 0 then NaN else if 0 < a then NInf else PInf)"
| "f_mul PInf (Fin b) = (if b = 0 then NaN else if 0 < b then PInf else NInf)"
| "f_mul NInf (Fin b) = (if b = 0 then NaN else if 0 < b then NInf else PInf)"
| "f_mul PInf PInf = PInf"
| "f_mul PInf NInf = NInf"
| "f_mul NInf PInf = NInf"
| "f_mul NInf NInf = PInf"

fun f_add :: "f32 \<Rightarrow> f32 \<Rightarrow> f32" where
  "f_add NaN v = NaN"
| "f_add v NaN = NaN"
| "f_add (Fin a) (Fin b) = overflow (a + b)"
| "f_add (Fin a) PInf = PInf"
| "f_add (Fin a) NInf = NInf"
| "f_add PInf (Fin b) = PInf"
| "f_add NInf (Fin b) = NInf"
| "f_add PInf PInf = PInf"
| "f_add PInf NInf = NaN"
| "f_add NInf PInf = NaN"
| "f_add NInf NInf = NInf"

fun f_exp :: "f32 \<Rightarrow> f32" where
  "f_exp NaN = NaN"
| "f_exp PInf = PInf"
| "f_exp NInf = Fin 0"
| "f_exp (Fin r) = overflow (exp r)"

text \<open>
  Where a tensor of the real-valued part of the model enters float arithmetic, its entries
  are read as float values; where a float tensor is handed to the real-valued part, a
  non-finite entry, which has no real value, is read as 0.
\<close>

definition to_f32 :: "real tensor \<Rightarrow> f32 tensor" where
  "to_f32 t = tmap overflow t"

definition real_of_f32 :: "f32 \<Rightarrow> real" where
  "real_of_f32 v = (case v of Fin r \<Rightarrow> r | _ \<Rightarrow> 0)"

section \<open>The sampling step and the loss\<close>

text \<open>
  \<^verbatim>\<open>
  def reparameterize(self, mu, logvar):
      std = torch.exp(0.5 * logvar)
      eps = torch.randn_like(std)
      return mu + eps * std
  \<close>
  On float values: \<open>torch.exp\<close> overflows to infinity for a large log-variance, and the
  product of a zero noise entry with it is NaN.
\<close>

definition reparameterize ::
  "f32 tensor \<Rightarrow> f32 tensor \<Rightarrow> generator \<Rightarrow> error + (f32 tensor \<times> generator)" where
  "reparameterize mu logvar g =
     (let std = tmap f_exp (tmap (\<lambda>v. f_mul (Fin 0.5) v) logvar);
          (eps, g') = randn_like std g
      in bindE (broadcast_op f_mul (to_f32 eps) std) (\<lambda>es.
         bindE (broadcast_op f_add mu es) (\<lambda>z. Inr (z, g'))))"

text \<open>
  \<open>F.binary_cross_entropy_with_logits(input, target, reduction='sum')\<close>: the target must
  have the shape of the input (no broadcasting, \<open>ValueError\<close> otherwise); the entry-wise
  loss is \<open>(1 - t) * x + log (1 + exp (- x))\<close>, summed over all entries.
\<close>

definition binary_cross_entropy_with_logits_sum ::
  "real tensor \<Rightarrow> real tensor \<Rightarrow> error + real" where
  "binary_cross_entropy_with_logits_sum inp target =
     (if shape target \<noteq> shape inp then Inl ValueError
      else Inr (torch_sum \<lparr>shape = shape inp,
                  elem = (\<lambda>ix. (1 - elem target ix) * elem inp ix + ln (1 + exp (- elem inp ix)))\<rparr>))"

text \<open>
  \<^verbatim>\<open>
  def loss_function(recon_x, x, mu, logvar):
      BCE = F.binary_cross_entropy_with_logits(recon_x, x, reduction='sum')
      \<beta> = 1.0
      KL = -0.5 * torch.sum(1 + logvar - mu.pow(2) - logvar.exp())
      return BCE + \<beta> * KL
  \<close>
\<close>

definition loss_function ::
  "real tensor \<Rightarrow> real tensor \<Rightarrow> real tensor \<Rightarrow> real tensor \<Rightarrow> error + real" where
  "loss_function recon_x x mu logvar =
     bindE (binary_cross_entropy_with_logits_sum recon_x x) (\<lambda>BCE.
       let \<beta> = 1.0 in
       bindE (broadcast_op (-) (tmap (\<lambda>v. 1 + v) logvar) (tmap (\<lambda>v. v ^ 2) mu)) (\<lambda>t1.
       bindE (broadcast_op (-) t1 (tmap exp logvar)) (\<lambda>t2.
         let KL = - 0.5 * torch_sum t2 in
         Inr (BCE + \<beta> * KL))))"

section \<open>Library operations used by the layers\<close>

text \<open>
  \<open>nn.Linear(in_features, out_features)\<close> applied to a tensor: the last dimension must
  have size \<open>in_features\<close> (\<open>RuntimeError\<close> otherwise) and is replaced by
  \<open>out_features\<close>; entry \<open>o\<close> of an output row is \<open>\<Sum>k. x[k] * weight[o][k] + bias[o]\<close>.
\<close>

record linear =
  in_features :: nat
  out_features :: nat
  weight :: "nat \<Rightarrow> nat \<Rightarrow> real"
  bias :: "nat \<Rightarrow> real"

definition Linear :: "linear \<Rightarrow> real tensor \<Rightarrow> error + real tensor" where
  "Linear L x =
     (if shape x = [] \<or> last (shape x) \<noteq> in_features L then Inl RuntimeError
      else Inr \<lparr>shape = butlast (shape x) @ [out_features L],
                elem = (\<lambda>ix. (\<Sum>k<in_features L. elem x (butlast ix @ [k]) * weight L (last ix) k)
                              + bias L (last ix))\<rparr>)"

text \<open>
  \<open>t.view(-1, d1, ..., dn)\<close> on a contiguous tensor: the entries keep their row-major
  order; the first size is inferred. It raises when \<open>d1 * ... * dn\<close> is 0 or does not
  divide the number of entries.
\<close>

definition view_infer :: "real tensor \<Rightarrow> nat list \<Rightarrow> error + real tensor" where
  "view_infer t rest =
     (if numel rest = 0 \<or> numel (shape t) mod numel rest \<noteq> 0 then Inl RuntimeError
      else let s = (numel (shape t) div numel rest) # rest
           in Inr \<lparr>shape = s, elem = (\<lambda>ix. elem t (unravel (shape t) (ravel s ix)))\<rparr>)"

text \<open>
  \<open>nn.LayerNorm(normalized_shape)\<close> over the last dimension, with the biased variance
  and the library's \<open>eps\<close>; the last dimension must have size \<open>normalized_shape\<close>.
\<close>

record layer_norm =
  normalized_shape :: nat
  eps :: real
  ln_weight :: "nat \<Rightarrow> real"
  ln_bias :: "nat \<Rightarrow> real"

definition row_mean :: "real tensor \<Rightarrow> nat \<Rightarrow> nat list \<Rightarrow> real" where
  "row_mean x D ix = (\<Sum>k<D. elem x (butlast ix @ [k])) / real D"

definition row_var :: "real tensor \<Rightarrow> nat \<Rightarrow> nat list \<Rightarrow> real" where
  "row_var x D ix = (\<Sum>k<D. (elem x (butlast ix @ [k]) - row_mean x D ix) ^ 2) / real D"

definition LayerNorm :: "layer_norm \<Rightarrow> real tensor \<Rightarrow> error + real tensor" where
  "LayerNorm L x =
     (if shape x = [] \<or> last (shape x) \<noteq> normalized_shape L then Inl RuntimeError
      else let D = normalized_shape L
           in Inr \<lparr>shape = shape x,
                    elem = (\<lambda>ix. (elem x ix - row_mean x D ix) / sqrt (row_var x D ix + eps L)
                                    * ln_weight L (last ix) + ln_bias L (last ix))\<rparr>)"

text \<open>
  \<open>nn.Dropout(p)\<close>: the identity in evaluation mode, where it draws nothing. In training
  mode it takes one draw per entry, keeps the entry (scaled by \<open>1 / (1 - p)\<close>) when the
  draw falls below \<open>1 - p\<close> and zeroes it otherwise.
\<close>

definition Dropout :: "real \<Rightarrow> bool \<Rightarrow> real tensor \<Rightarrow> generator \<Rightarrow> real tensor \<times> generator" where
  "Dropout p train t g =
     (if train
      then (\<lparr>shape = shape t,
             elem = (\<lambda>ix. if g (ravel (shape t) ix) < 1 - p then elem t ix / (1 - p) else 0)\<rparr>,
            advance (numel (shape t)) g)
      else (t, g))"

text \<open>\<open>t.sum(dim=-1, keepdim=True)\<close>.\<close>

definition sum_last_keepdim :: "real tensor \<Rightarrow> real tensor" where
  "sum_last_keepdim t =
     (if shape t = [] then t
      else \<lparr>shape = butlast (shape t) @ [1],
            elem = (\<lambda>ix. \<Sum>k<last (shape t). elem t (butlast ix @ [k]))\<rparr>)"

text \<open>\<open>torch.softmax(t, dim=1)\<close>: normalisation along dimension 1, which must exist.\<close>

definition softmax_dim1 :: "real tensor \<Rightarrow> error + real tensor" where
  "softmax_dim1 t =
     (if length (shape t) < 2 then Inl IndexError
      else Inr \<lparr>shape = shape t,
                elem = (\<lambda>ix. exp (elem t ix) / (\<Sum>k<shape t ! 1. exp (elem t (ix[1 := k]))))\<rparr>)"

text \<open>A dimension argument: negative values count from the last dimension.\<close>

definition wrap_dim :: "int \<Rightarrow> nat \<Rightarrow> error + nat" where
  "wrap_dim d rank =
     (if - int rank \<le> d \<and> d < int rank
      then Inr (nat (if d < 0 then d + int rank else d))
      else Inl IndexError)"

text \<open>\<open>src.index_select(d, index)\<close>: every index must lie in \<open>[0, src.size(d))\<close>.\<close>

definition index_select :: "real tensor \<Rightarrow> nat \<Rightarrow> int list \<Rightarrow> error + real tensor" where
  "index_select src d index =
     (if list_ex (\<lambda>i. i < 0 \<or> int (shape src ! d) \<le> i) index then Inl IndexError
      else Inr \<lparr>shape = (shape src)[d := length index],
                elem = (\<lambda>ix. elem src (ix[d := nat (index ! (ix ! d))]))\<rparr>)"

text \<open>
  The sum aggregation of the graph library (\<open>scatter\<close> with \<open>reduce='sum'\<close>): entry \<open>e\<close>
  of \<open>src\<close> along dimension \<open>d\<close> is added into position \<open>index[e]\<close> of a zero tensor
  whose dimension \<open>d\<close> has size \<open>dim_size\<close>. A position that no entry is sent to stays 0.
\<close>

definition scatter_sum :: "real tensor \<Rightarrow> int list \<Rightarrow> nat \<Rightarrow> nat \<Rightarrow> error + real tensor" where
  "scatter_sum src index d dim_size =
     (if length index \<noteq> shape src ! d then Inl RuntimeError
      else Inr \<lparr>shape = (shape src)[d := dim_size],
                elem = (\<lambda>ix. \<Sum>e<length index.
                                if index ! e = int (ix ! d) then elem src (ix[d := e]) else 0)\<rparr>)"

section \<open>Molecule to graph\<close>

text \<open>
  What \<open>mol_to_graph\<close> reads from an RDKit molecule: the atomic number of each atom, in
  atom order, and the begin and end atom index of each bond, in bond order.
\<close>

record Mol =
  atoms :: "nat list"
  bonds :: "(nat \<times> nat) list"

text \<open>RDKit only builds bonds between atoms of the molecule.\<close>

definition rdkit_mol :: "Mol \<Rightarrow> bool" where
  "rdkit_mol mol = list_all (\<lambda>(i, j). i < length (atoms mol) \<and> j < length (atoms mol)) (bonds mol)"

record Data =
  data_x :: "real tensor"
  data_edge_index :: "int tensor"

text \<open>
  \<open>torch.tensor(rows)\<close> for a Python list of equally long lists: a 2-dimensional tensor,
  except that the empty list gives the 1-dimensional tensor of shape \<open>[0]\<close>.
  \<open>t.t()\<close> swaps the two dimensions of a 2-dimensional tensor and returns a tensor of
  fewer dimensions as it is.
\<close>

definition torch_tensor :: "'a list list \<Rightarrow> 'a tensor" where
  "torch_tensor rows =
     \<lparr>shape = (if rows = [] then [0] else [length rows, length (hd rows)]),
      elem = (\<lambda>ix. rows ! (ix ! 0) ! (ix ! 1))\<rparr>"

definition tensor_t :: "'a tensor \<Rightarrow> 'a tensor" where
  "tensor_t t =
     (if length (shape t) < 2 then t
      else \<lparr>shape = [shape t ! 1, shape t ! 0], elem = (\<lambda>ix. elem t [ix ! 1, ix ! 0])\<rparr>)"

text \<open>
  \<^verbatim>\<open>
  def mol_to_graph(mol):
      nodes = []
      edge_index = []
      for atom in mol.GetAtoms():
          nodes.append([atom.GetAtomicNum()])
      for bond in mol.GetBonds():
          i = bond.GetBeginAtomIdx()
          j = bond.GetEndAtomIdx()
          edge_index.append([i, j])
          edge_index.append([j, i])
      edge_index = torch.tensor(edge_index, dtype=torch.long).t().contiguous()
      x = torch.tensor(nodes, dtype=torch.float)
      return Data(x=x, edge_index=edge_index)
  \<close>
\<close>

fun atom_loop :: "nat list \<Rightarrow> real list list \<Rightarrow> real list list" where
  "atom_loop [] nodes = nodes"
| "atom_loop (a # as) nodes = atom_loop as (nodes @ [ [real a] ])"

fun bond_loop :: "(nat \<times> nat) list \<Rightarrow> int list list \<Rightarrow> int list list" where
  "bond_loop [] edge_index = edge_index"
| "bond_loop ((i, j) # bs) edge_index =
     bond_loop bs ((edge_index @ [ [int i, int j] ]) @ [ [int j, int i] ])"

definition mol_to_graph :: "Mol \<Rightarrow> Data" where
  "mol_to_graph mol =
     (let nodes = atom_loop (atoms mol) [];
          edge_index = bond_loop (bonds mol) [];
          edge_index = tensor_t (torch_tensor edge_index);
          x = torch_tensor nodes
      in \<lparr>data_x = x, data_edge_index = edge_index\<rparr>)"

text \<open>The directed edges a 2-row edge tensor holds: column \<open>e\<close> is the edge
  from \<open>edge_index[0][e]\<close> to \<open>edge_index[1][e]\<close>.\<close>

definition edge_row :: "int tensor \<Rightarrow> nat \<Rightarrow> int list" where
  "edge_row ei r = map (\<lambda>e. elem ei [r, e]) [0..<shape ei ! 1]"

definition edges_of :: "int tensor \<Rightarrow> (int \<times> int) list" where
  "edges_of ei = (if length (shape ei) = 2 then zip (edge_row ei 0) (edge_row ei 1) else [])"

definition num_nodes :: "Data \<Rightarrow> nat" where
  "num_nodes d = hd (shape (data_x d))"

section \<open>The graph network layer\<close>

text \<open>
  \<^verbatim>\<open>
  class GraphVAE(MessagePassing):
      def __init__(self, in_channels, out_channels, heads=4, dropout=0.1):
          super(GraphVAE, self).__init__(aggr='add')
          self.heads = heads
          self.out_channels = out_channels
          self.lin_q = nn.Linear(in_channels, heads * out_channels)
          self.lin_k = nn.Linear(in_channels, heads * out_channels)
          self.lin_v = nn.Linear(in_channels, heads * out_channels)
          self.lin_out = nn.Linear(heads * out_channels, out_channels)
          self.dropout = nn.Dropout(dropout)
          self.norm = nn.LayerNorm(out_channels)
  \<close>
  The layer's state: its submodules with their parameter values (the field \<open>norm_layer\<close>
  is the source's \<open>self.norm\<close>), the mode flag
  \<open>training\<close> that \<open>train()\<close> and \<open>eval()\<close> set on the layer and its submodules, and
  \<open>node_dim\<close>, the dimension along which the base class \<open>MessagePassing\<close> gathers and
  scatters.
\<close>

record GraphVAE =
  heads :: nat
  out_channels :: nat
  lin_q :: linear
  lin_k :: linear
  lin_v :: linear
  lin_out :: linear
  dropout :: real
  norm_layer :: layer_norm
  node_dim :: int
  training :: bool

text \<open>The values of the learnable parameters of a layer (set at random by the
  constructor, changed by training).\<close>

record GraphVAE_values =
  q_weight :: "nat \<Rightarrow> nat \<Rightarrow> real"
  q_bias :: "nat \<Rightarrow> real"
  k_weight :: "nat \<Rightarrow> nat \<Rightarrow> real"
  k_bias :: "nat \<Rightarrow> real"
  v_weight :: "nat \<Rightarrow> nat \<Rightarrow> real"
  v_bias :: "nat \<Rightarrow> real"
  out_weight :: "nat \<Rightarrow> nat \<Rightarrow> real"
  out_bias :: "nat \<Rightarrow> real"
  norm_weight :: "nat \<Rightarrow> real"
  norm_bias :: "nat \<Rightarrow> real"

definition nn_Linear :: "nat \<Rightarrow> nat \<Rightarrow> (nat \<Rightarrow> nat \<Rightarrow> real) \<Rightarrow> (nat \<Rightarrow> real) \<Rightarrow> linear" where
  "nn_Linear n_in n_out W b = \<lparr>in_features = n_in, out_features = n_out, weight = W, bias = b\<rparr>"

text \<open>
  The constructor. The notebook passes only \<open>aggr='add'\<close> to \<open>MessagePassing.__init__\<close>,
  so \<open>node_dim\<close> is that library's default, a constant that is not part of the
  notebook: it is the parameter \<open>default_node_dim\<close> here (-2 in the library since its
  release 1.6, 0 before). \<open>nn.Dropout\<close> refuses a probability outside \<open>[0, 1]\<close>; a new
  module is in training mode; \<open>nn.LayerNorm\<close> has \<open>eps = 1e-5\<close>.
\<close>

definition GraphVAE_init ::
  "int \<Rightarrow> nat \<Rightarrow> nat \<Rightarrow> nat \<Rightarrow> real \<Rightarrow> GraphVAE_values \<Rightarrow> error + GraphVAE" where
  "GraphVAE_init default_node_dim in_channels out_chans hds p \<theta> =
     (if p < 0 \<or> 1 < p then Inl ValueError
      else Inr \<lparr>heads = hds,
                out_channels = out_chans,
                lin_q = nn_Linear in_channels (hds * out_chans) (q_weight \<theta>) (q_bias \<theta>),
                lin_k = nn_Linear in_channels (hds * out_chans) (k_weight \<theta>) (k_bias \<theta>),
                lin_v = nn_Linear in_channels (hds * out_chans) (v_weight \<theta>) (v_bias \<theta>),
                lin_out = nn_Linear (hds * out_chans) out_chans (out_weight \<theta>) (out_bias \<theta>),
                dropout = p,
                norm_layer = \<lparr>normalized_shape = out_chans, eps = 1 / 100000,
                         ln_weight = norm_weight \<theta>, ln_bias = norm_bias \<theta>\<rparr>,
                node_dim = default_node_dim,
                training = True\<rparr>)"

text \<open>
  \<^verbatim>\<open>
      def message(self, Q_i, K_j, V_j):
          score = (Q_i * K_j).sum(dim=-1, keepdim=True) / (self.out_channels ** 0.5)
          score = torch.softmax(score, dim=1)
          score = self.dropout(score)
          return score * V_j
  \<close>
\<close>

definition message ::
  "GraphVAE \<Rightarrow> real tensor \<Rightarrow> real tensor \<Rightarrow> real tensor \<Rightarrow> generator
     \<Rightarrow> error + (real tensor \<times> generator)" where
  "message l Q_i K_j V_j g =
     bindE (broadcast_op (*) Q_i K_j) (\<lambda>qk.
       let score = tmap (\<lambda>v. v / sqrt (real (out_channels l))) (sum_last_keepdim qk) in
       bindE (softmax_dim1 score) (\<lambda>score.
         let (score, g') = Dropout (dropout l) (training l) score g in
         bindE (broadcast_op (*) score V_j) (\<lambda>m. Inr (m, g'))))"

text \<open>
  \<open>self.propagate(edge_index, Q=Q, K=K, V=V)\<close> of \<open>MessagePassing\<close>, for the flow
  \<open>source_to_target\<close> and the aggregation \<open>'add'\<close> the layer is built with:
  \<^item> \<open>edge_index\<close> must be 2-dimensional with 2 rows (\<open>ValueError\<close> otherwise); row 0
    holds the source and row 1 the target of every edge;
  \<^item> an argument \<open>A_i\<close> of \<open>message\<close> is \<open>A\<close> gathered along \<open>node_dim\<close> at the
    targets, an argument \<open>A_j\<close> is \<open>A\<close> gathered at the sources (\<open>index_select\<close>, so
    an index outside that dimension is an \<open>IndexError\<close>); all arguments gathered at
    the same row must have the same size along \<open>node_dim\<close>;
  \<^item> the messages are summed along \<open>node_dim\<close> at the targets, into as many positions as
    \<open>Q\<close> has along \<open>node_dim\<close>; the update step returns the sums unchanged.
\<close>

definition check_input :: "int tensor \<Rightarrow> error + unit" where
  "check_input ei =
     (if length (shape ei) \<noteq> 2 then Inl ValueError
      else if shape ei ! 0 \<noteq> 2 then Inl ValueError
      else Inr ())"

definition lift :: "real tensor \<Rightarrow> int tensor \<Rightarrow> nat \<Rightarrow> int \<Rightarrow> error + real tensor" where
  "lift src ei r nd =
     bindE (wrap_dim nd (length (shape src))) (\<lambda>d. index_select src d (edge_row ei r))"

definition propagate ::
  "GraphVAE \<Rightarrow> int tensor \<Rightarrow> real tensor \<Rightarrow> real tensor \<Rightarrow> real tensor \<Rightarrow> generator
     \<Rightarrow> error + (real tensor \<times> generator)" where
  "propagate l ei Q K V g =
     bindE (check_input ei) (\<lambda>_.
     bindE (lift Q ei 1 (node_dim l)) (\<lambda>Q_i.
     bindE (lift K ei 0 (node_dim l)) (\<lambda>K_j.
     bindE (wrap_dim (node_dim l) (length (shape V))) (\<lambda>dv.
     bindE (wrap_dim (node_dim l) (length (shape K))) (\<lambda>dk.
       if shape V ! dv \<noteq> shape K ! dk then Inl ValueError
       else
     bindE (lift V ei 0 (node_dim l)) (\<lambda>V_j.
     bindE (message l Q_i K_j V_j g) (\<lambda>(m, g').
     bindE (wrap_dim (node_dim l) (length (shape m))) (\<lambda>dm.
     bindE (wrap_dim (node_dim l) (length (shape Q))) (\<lambda>dq.
     bindE (scatter_sum m (edge_row ei 1) dm (shape Q ! dq)) (\<lambda>out.
       Inr (out, g')))))))))))"

text \<open>
  \<^verbatim>\<open>
      def forward(self, x, edge_index):
          Q = self.lin_q(x).view(-1, self.heads, self.out_channels)
          K = self.lin_k(x).view(-1, self.heads, self.out_channels)
          V = self.lin_v(x).view(-1, self.heads, self.out_channels)
          out = self.propagate(edge_index, Q=Q, K=K, V=V)
          out = self.lin_out(out.view(-1, self.heads * self.out_channels))
          out = self.norm(out + x)
          return out
  \<close>
\<close>

definition project :: "linear \<Rightarrow> GraphVAE \<Rightarrow> real tensor \<Rightarrow> error + real tensor" where
  "project L l x = bindE (Linear L x) (\<lambda>y. view_infer y [heads l, out_channels l])"

definition GraphVAE_forward ::
  "GraphVAE \<Rightarrow> real tensor \<Rightarrow> int tensor \<Rightarrow> generator \<Rightarrow> error + (real tensor \<times> generator)" where
  "GraphVAE_forward l x edge_index g =
     bindE (project (lin_q l) l x) (\<lambda>Q.
     bindE (project (lin_k l) l x) (\<lambda>K.
     bindE (project (lin_v l) l x) (\<lambda>V.
     bindE (propagate l edge_index Q K V g) (\<lambda>(out, g').
     bindE (view_infer out [heads l * out_channels l]) (\<lambda>out.
     bindE (Linear (lin_out l) out) (\<lambda>out.
     bindE (broadcast_op (+) out x) (\<lambda>s.
     bindE (LayerNorm (norm_layer l) s) (\<lambda>out.
       Inr (out, g')))))))))"

section \<open>The variational autoencoder\<close>

text \<open>
  \<^verbatim>\<open>
  class VAE_GNN(nn.Module):
      def __init__(self, in_channels, hidden_channels, latent_dim=16, num_layers=4):
          self.layers = nn.ModuleList()
          for _ in range(num_layers):
              self.layers.append(GraphVAE(in_channels, hidden_channels))
              in_channels = hidden_channels
          self.fc_mu = nn.Linear(hidden_channels, latent_dim)
          self.fc_logvar = nn.Linear(hidden_channels, latent_dim)
          self.fc_decode = nn.Linear(latent_dim, hidden_channels)
          self.fc_out = nn.Linear(hidden_channels, 1)
  \<close>
\<close>

record VAE_GNN =
  layers :: "GraphVAE list"
  fc_mu :: linear
  fc_logvar :: linear
  fc_decode :: linear
  fc_out :: linear
  vae_training :: bool

record VAE_GNN_values =
  layer_values :: "GraphVAE_values list"
  mu_weight :: "nat \<Rightarrow> nat \<Rightarrow> real"
  mu_bias :: "nat \<Rightarrow> real"
  logvar_weight :: "nat \<Rightarrow> nat \<Rightarrow> real"
  logvar_bias :: "nat \<Rightarrow> real"
  decode_weight :: "nat \<Rightarrow> nat \<Rightarrow> real"
  decode_bias :: "nat \<Rightarrow> real"
  fc_out_weight :: "nat \<Rightarrow> nat \<Rightarrow> real"
  fc_out_bias :: "nat \<Rightarrow> real"

text \<open>The loop of the constructor: one layer per entry of the list of layer values, the
  first with \<open>in_channels\<close> inputs, the later ones with \<open>hidden_channels\<close>.\<close>

fun init_layers :: "int \<Rightarrow> nat \<Rightarrow> nat \<Rightarrow> GraphVAE_values list \<Rightarrow> error + GraphVAE list" where
  "init_layers nd in_channels hidden_channels [] = Inr []"
| "init_layers nd in_channels hidden_channels (\<theta> # \<theta>s) =
     bindE (GraphVAE_init nd in_channels hidden_channels 4 0.1 \<theta>) (\<lambda>l.
     bindE (init_layers nd hidden_channels hidden_channels \<theta>s) (\<lambda>ls. Inr (l # ls)))"

definition VAE_GNN_init :: "int \<Rightarrow> nat \<Rightarrow> nat \<Rightarrow> nat \<Rightarrow> VAE_GNN_values \<Rightarrow> error + VAE_GNN" where
  "VAE_GNN_init nd in_channels hidden_channels latent_dim \<theta> =
     bindE (init_layers nd in_channels hidden_channels (layer_values \<theta>)) (\<lambda>ls.
       Inr \<lparr>layers = ls,
            fc_mu = nn_Linear hidden_channels latent_dim (mu_weight \<theta>) (mu_bias \<theta>),
            fc_logvar = nn_Linear hidden_channels latent_dim (logvar_weight \<theta>) (logvar_bias \<theta>),
            fc_decode = nn_Linear latent_dim hidden_channels (decode_weight \<theta>) (decode_bias \<theta>),
            fc_out = nn_Linear hidden_channels 1 (fc_out_weight \<theta>) (fc_out_bias \<theta>),
            vae_training = True\<rparr>)"

text \<open>
  \<^verbatim>\<open>
      def encode(self, x, edge_index):
          for layer in self.layers:
              x = layer(x, edge_index)
          mu = self.fc_mu(x)
          logvar = self.fc_logvar(x)
          return mu, logvar
  \<close>
\<close>

fun layer_loop ::
  "GraphVAE list \<Rightarrow> real tensor \<Rightarrow> int tensor \<Rightarrow> generator \<Rightarrow> error + (real tensor \<times> generator)" where
  "layer_loop [] x edge_index g = Inr (x, g)"
| "layer_loop (layer # ls) x edge_index g =
     bindE (GraphVAE_forward layer x edge_index g) (\<lambda>(x', g'). layer_loop ls x' edge_index g')"

definition encode ::
  "VAE_GNN \<Rightarrow> real tensor \<Rightarrow> int tensor \<Rightarrow> generator
     \<Rightarrow> error + ((real tensor \<times> real tensor) \<times> generator)" where
  "encode m x edge_index g =
     bindE (layer_loop (layers m) x edge_index g) (\<lambda>(x', g').
     bindE (Linear (fc_mu m) x') (\<lambda>mu.
     bindE (Linear (fc_logvar m) x') (\<lambda>logvar.
       Inr ((mu, logvar), g'))))"

text \<open>
  \<^verbatim>\<open>
      def decode(self, z):
          h = F.relu(self.fc_decode(z))
          out = self.fc_out(h)
          return out
  \<close>
\<close>

definition relu :: "real \<Rightarrow> real" where
  "relu v = max 0 v"

definition decode :: "VAE_GNN \<Rightarrow> real tensor \<Rightarrow> error + real tensor" where
  "decode m z =
     bindE (Linear (fc_decode m) z) (\<lambda>h0.
       let h = tmap relu h0 in
       bindE (Linear (fc_out m) h) (\<lambda>out. Inr out))"

text \<open>
  \<^verbatim>\<open>
      def forward(self, x, edge_index):
          mu, logvar = self.encode(x, edge_index)
          z = self.reparameterize(mu, logvar)
          out = self.decode(z)
  \<close>
  The body ends without a \<open>return\<close>: a call that raises nothing yields Python's \<open>None\<close>.
  The value a call returns is \<open>None\<close> or a tensor. The mean and the log-variance enter
  the sampling step as float values. The decoder is modelled over the reals like the layers;
  \<open>forward\<close> discards its output, and whether it raises depends on the shape of \<open>z\<close>
  alone, so a non-finite entry of \<open>z\<close> reaches it as 0.
\<close>

datatype py_result = PyNone | PyTensor "real tensor"

definition VAE_GNN_forward ::
  "VAE_GNN \<Rightarrow> real tensor \<Rightarrow> int tensor \<Rightarrow> generator \<Rightarrow> error + (py_result \<times> generator)" where
  "VAE_GNN_forward m x edge_index g =
     bindE (encode m x edge_index g) (\<lambda>((mu, logvar), g1).
     bindE (reparameterize (to_f32 mu) (to_f32 logvar) g1) (\<lambda>(z, g2).
     bindE (decode m (tmap real_of_f32 z)) (\<lambda>out.
       Inr (PyNone, g2))))"

text \<open>Two calls of \<open>encode\<close> in succession: the second call finds the generator as the
  first call left it.\<close>

definition encode_twice ::
  "VAE_GNN \<Rightarrow> real tensor \<Rightarrow> int tensor \<Rightarrow> generator
     \<Rightarrow> error + ((real tensor \<times> real tensor) \<times> (real tensor \<times> real tensor))" where
  "encode_twice m x edge_index g =
     bindE (encode m x edge_index g) (\<lambda>(first, g1).
     bindE (encode m x edge_index g1) (\<lambda>(second, g2).
       Inr (first, second)))"

section \<open>Sampling from the prior\<close>

text \<open>
  \<open>model.eval()\<close> clears the mode flag of the module and of every submodule;
  the parameters of the model are the weights and biases of its submodules.
\<close>

definition GraphVAE_eval :: "GraphVAE \<Rightarrow> GraphVAE" where
  "GraphVAE_eval l = l\<lparr>training := False\<rparr>"

definition VAE_GNN_eval :: "VAE_GNN \<Rightarrow> VAE_GNN" where
  "VAE_GNN_eval m = m\<lparr>layers := map GraphVAE_eval (layers m), vae_training := False\<rparr>"

definition GraphVAE_parameters :: "GraphVAE \<Rightarrow> GraphVAE_values" where
  "GraphVAE_parameters l =
     \<lparr>q_weight = weight (lin_q l), q_bias = bias (lin_q l),
      k_weight = weight (lin_k l), k_bias = bias (lin_k l),
      v_weight = weight (lin_v l), v_bias = bias (lin_v l),
      out_weight = weight (lin_out l), out_bias = bias (lin_out l),
      norm_weight = ln_weight (norm_layer l), norm_bias = ln_bias (norm_layer l)\<rparr>"

definition VAE_GNN_parameters :: "VAE_GNN \<Rightarrow> VAE_GNN_values" where
  "VAE_GNN_parameters m =
     \<lparr>layer_values = map GraphVAE_parameters (layers m),
      mu_weight = weight (fc_mu m), mu_bias = bias (fc_mu m),
      logvar_weight = weight (fc_logvar m), logvar_bias = bias (fc_logvar m),
      decode_weight = weight (fc_decode m), decode_bias = bias (fc_decode m),
      fc_out_weight = weight (fc_out m), fc_out_bias = bias (fc_out m)\<rparr>"

text \<open>\<open>torch.randn(d0, d1)\<close>: a new tensor of that shape filled with draws.\<close>

definition torch_randn :: "nat list \<Rightarrow> generator \<Rightarrow> real tensor \<times> generator" where
  "torch_randn s g = (\<lparr>shape = s, elem = (\<lambda>ix. g (ravel s ix))\<rparr>, advance (numel s) g)"

text \<open>
  \<^verbatim>\<open>
  def generate_molecule(model, num_samples=5):
      model.eval()
      samples = []
      with torch.no_grad():
          for _ in range(num_samples):
              z = torch.randn(1, model.fc_mu.out_features).to(model.fc_mu.weight.device)
              sampled_molecule = model.decode(z)
              samples.append(sampled_molecule)
      return samples
  \<close>
  The argument \<open>num_samples\<close> is a Python value: \<open>range\<close> accepts an integer (and is
  empty for one below 1) and raises \<open>TypeError\<close> for a string, which is what the
  notebook's last cell passes. The function returns the samples or raises; in both cases
  the model and the generator are left in the state the call brought them to.
\<close>

datatype py_arg = PyInt int | PyStr string

fun sample_loop ::
  "VAE_GNN \<Rightarrow> nat \<Rightarrow> real tensor list \<Rightarrow> generator \<Rightarrow> (error + real tensor list) \<times> generator" where
  "sample_loop model 0 samples g = (Inr samples, g)"
| "sample_loop model (Suc n) samples g =
     (let (z, g') = torch_randn [1, out_features (fc_mu model)] g
      in case decode model z of
           Inl e \<Rightarrow> (Inl e, g')
         | Inr sampled_molecule \<Rightarrow> sample_loop model n (samples @ [sampled_molecule]) g')"

definition generate_molecule ::
  "VAE_GNN \<Rightarrow> py_arg \<Rightarrow> generator \<Rightarrow> (error + real tensor list) \<times> VAE_GNN \<times> generator" where
  "generate_molecule model num_samples g =
     (let model = VAE_GNN_eval model
      in case num_samples of
           PyStr s \<Rightarrow> (Inl TypeError, model, g)
         | PyInt n \<Rightarrow>
             (let (r, g') = sample_loop model (nat n) [] g in (r, model, g')))"

section \<open>Attention as the specification words it\<close>

text \<open>
  The specification's description of the attention layer, for node features already
  projected to \<open>Q\<close>, \<open>K\<close>, \<open>V\<close> of shape nodes \<open>\<times>\<close> heads \<open>\<times>\<close> \<open>D_out\<close>: for each directed
  edge \<open>(i \<leftarrow> j)\<close> the unnormalised score is \<open>(Q_i \<cdot> K_j) / sqrt D_out\<close>; scores are
  normalised per destination node by a softmax over its incoming edges; the aggregate of a
  node is the sum over its incoming edges of normalised score times \<open>V_j\<close>.
\<close>

definition spec_score :: "nat \<Rightarrow> real tensor \<Rightarrow> real tensor \<Rightarrow> nat \<Rightarrow> nat \<Rightarrow> nat \<Rightarrow> real" where
  "spec_score D Q K h i j = (\<Sum>d<D. elem Q [i, h, d] * elem K [j, h, d]) / sqrt (real D)"

definition incoming :: "(int \<times> int) list \<Rightarrow> nat \<Rightarrow> nat list" where
  "incoming es i = map (\<lambda>(j, t). nat j) (filter (\<lambda>(j, t). t = int i) es)"

definition spec_normalized_score ::
  "nat \<Rightarrow> real tensor \<Rightarrow> real tensor \<Rightarrow> (int \<times> int) list \<Rightarrow> nat \<Rightarrow> nat \<Rightarrow> nat \<Rightarrow> real" where
  "spec_normalized_score D Q K es h i j =
     exp (spec_score D Q K h i j) / (\<Sum>j' \<leftarrow> incoming es i. exp (spec_score D Q K h i j'))"

definition spec_aggregate ::
  "nat \<Rightarrow> real tensor \<Rightarrow> real tensor \<Rightarrow> real tensor \<Rightarrow> (int \<times> int) list \<Rightarrow> nat list \<Rightarrow> real" where
  "spec_aggregate D Q K V es ix =
     (case ix of
        [i, h, d] \<Rightarrow> (\<Sum>j \<leftarrow> incoming es i. spec_normalized_score D Q K es h i j * elem V [j, h, d])
      | _ \<Rightarrow> 0)"

text \<open>
  The residual-only path of the layer: the output projection of a zero aggregate, plus the
  input features, normalised.
\<close>

definition residual_only_path :: "GraphVAE \<Rightarrow> real tensor \<Rightarrow> error + real tensor" where
  "residual_only_path l x =
     bindE (Linear (lin_out l) (zeros [hd (shape x), heads l * out_channels l])) (\<lambda>out.
     bindE (broadcast_op (+) out x) (\<lambda>s.
       LayerNorm (norm_layer l) s))"

section \<open>Concrete inputs\<close>

text \<open>
  Molecules: the heavy atoms of ethanol (two carbons and an oxygen in a chain: 3 nodes,
  2 bonds), a single carbon atom (one isolated node), and a chain of five carbons.
\<close>

definition ethanol :: Mol where
  "ethanol = \<lparr>atoms = [6, 6, 8], bonds = [(0, 1), (1, 2)]\<rparr>"

definition methane :: Mol where
  "methane = \<lparr>atoms = [6], bonds = []\<rparr>"

definition pentane :: Mol where
  "pentane = \<lparr>atoms = [6, 6, 6, 6, 6], bonds = [(0, 1), (1, 2), (2, 3), (3, 4)]\<rparr>"

text \<open>
  A layer \<open>GraphVAE(1, 2)\<close> (4 heads, dropout 0.1) with fixed parameter values: queries and
  keys are 0, values are 1, the output projection copies the first aggregated entry.
  \<open>demo_layer nd train\<close> is that layer with \<open>node_dim = nd\<close> in the given mode, and
  \<open>demo_model\<close> the autoencoder \<open>VAE_GNN(1, 2, latent_dim=1, num_layers=1)\<close> around it.
\<close>

definition demo_values :: GraphVAE_values where
  "demo_values =
     \<lparr>q_weight = (\<lambda>j k. 0), q_bias = (\<lambda>j. 0),
      k_weight = (\<lambda>j k. 0), k_bias = (\<lambda>j. 0),
      v_weight = (\<lambda>j k. 0), v_bias = (\<lambda>j. 1),
      out_weight = (\<lambda>j k. if j = 0 \<and> k = 0 then 1 else 0), out_bias = (\<lambda>j. 0),
      norm_weight = (\<lambda>j. 1), norm_bias = (\<lambda>j. 0)\<rparr>"

definition demo_layer :: "int \<Rightarrow> bool \<Rightarrow> GraphVAE" where
  "demo_layer nd train =
     \<lparr>heads = 4, out_channels = 2,
      lin_q = nn_Linear 1 8 (q_weight demo_values) (q_bias demo_values),
      lin_k = nn_Linear 1 8 (k_weight demo_values) (k_bias demo_values),
      lin_v = nn_Linear 1 8 (v_weight demo_values) (v_bias demo_values),
      lin_out = nn_Linear 8 2 (out_weight demo_values) (out_bias demo_values),
      dropout = 0.1,
      norm_layer = \<lparr>normalized_shape = 2, eps = 1 / 100000,
                      ln_weight = norm_weight demo_values, ln_bias = norm_bias demo_values\<rparr>,
      node_dim = nd,
      training = train\<rparr>"

definition demo_model_values :: VAE_GNN_values where
  "demo_model_values =
     \<lparr>layer_values = [demo_values],
      mu_weight = (\<lambda>j k. if k = 0 then 1 else 0), mu_bias = (\<lambda>j. 0),
      logvar_weight = (\<lambda>j k. 0), logvar_bias = (\<lambda>j. 0),
      decode_weight = (\<lambda>j k. 1), decode_bias = (\<lambda>j. 0),
      fc_out_weight = (\<lambda>j k. 1), fc_out_bias = (\<lambda>j. 0)\<rparr>"

definition demo_model :: "int \<Rightarrow> bool \<Rightarrow> VAE_GNN" where
  "demo_model nd train =
     \<lparr>layers = [demo_layer nd train],
      fc_mu = nn_Linear 2 1 (mu_weight demo_model_values) (mu_bias demo_model_values),
      fc_logvar = nn_Linear 2 1 (logvar_weight demo_model_values) (logvar_bias demo_model_values),
      fc_decode = nn_Linear 1 2 (decode_weight demo_model_values) (decode_bias demo_model_values),
      fc_out = nn_Linear 2 1 (fc_out_weight demo_model_values) (fc_out_bias demo_model_values),
      vae_training = train\<rparr>"

text \<open>A seeded generator: its first twelve draws are 0, all later draws are 1.\<close>

definition demo_generator :: generator where
  "demo_generator = (\<lambda>k. if k < 12 then 0 else 1)"

section \<open>Basic facts about the library operations\<close>

lemma bindE_Inr [simp]: "bindE (Inr v) f = f v"
  by (simp add: bindE_def)

lemma bindE_Inl [simp]: "bindE (Inl e) f = Inl e"
  by (simp add: bindE_def)

lemma bindE_eq_Inr: "bindE m f = Inr r \<longleftrightarrow> (\<exists>v. m = Inr v \<and> f v = Inr r)"
  by (cases m) auto

lemma numel_Nil [simp]: "numel [] = 1"
  by (simp add: numel_def)

lemma numel_Cons [simp]: "numel (n # s) = n * numel s"
  by (simp add: numel_def)

lemma valid_ix_Nil [simp]: "valid_ix [] ix = (ix = [])"
  by (simp add: valid_ix_def)

lemma valid_ix_Cons:
  "valid_ix (n # s) ix = (\<exists>i ix'. ix = i # ix' \<and> i < n \<and> valid_ix s ix')"
  by (auto simp: valid_ix_def list_all2_Cons2)

lemma valid_ix_length: "valid_ix s ix \<Longrightarrow> length ix = length s"
  by (simp add: valid_ix_def list_all2_lengthD)

text \<open>Every offset below the number of entries is the offset of a valid multi-index.\<close>

lemma valid_unravel: "k < numel s \<Longrightarrow> valid_ix s (unravel s k)"
proof (induction s arbitrary: k)
  case Nil
  then show ?case by simp
next
  case (Cons n s)
  then have pos: "0 < numel s" by (cases "numel s") auto
  have "k div numel s < n"
    using Cons.prems by (simp add: less_mult_imp_div_less mult.commute)
  moreover have "valid_ix s (unravel s (k mod numel s))"
    using Cons.IH pos by simp
  ultimately show ?case by (simp add: valid_ix_Cons)
qed

lemma ravel_less: "valid_ix s ix \<Longrightarrow> ravel s ix < numel s"
proof (induction s arbitrary: ix)
  case Nil
  then show ?case by simp
next
  case (Cons n s)
  then obtain i ix' where ix: "ix = i # ix'" "i < n" "valid_ix s ix'"
    by (auto simp: valid_ix_Cons)
  have "ravel s ix' < numel s" using Cons.IH ix by simp
  then have "i * numel s + ravel s ix' < (i + 1) * numel s" by simp
  also have "\<dots> \<le> n * numel s" using ix(2) by (intro mult_le_mono1) simp
  finally show ?case using ix by simp
qed

lemma unravel_ravel: "valid_ix s ix \<Longrightarrow> unravel s (ravel s ix) = ix"
proof (induction s arbitrary: ix)
  case Nil
  then show ?case by simp
next
  case (Cons n s)
  then obtain i ix' where ix: "ix = i # ix'" "i < n" "valid_ix s ix'"
    by (auto simp: valid_ix_Cons)
  have lt: "ravel s ix' < numel s" using ravel_less ix by simp
  show ?case using ix lt Cons.IH[OF ix(3)] by simp
qed

lemma ravel_unravel: "k < numel s \<Longrightarrow> ravel s (unravel s k) = k"
proof (induction s arbitrary: k)
  case Nil
  then show ?case by simp
next
  case (Cons n s)
  then have pos: "0 < numel s" by (cases "numel s") auto
  show ?case using Cons.IH[of "k mod numel s"] pos by simp
qed

text \<open>Operands of equal shape are combined entry by entry.\<close>

lemma bidx_same: "valid_ix s ix \<Longrightarrow> bidx s ix = ix"
proof -
  assume v: "valid_ix s ix"
  then have len: "length ix = length s" by (rule valid_ix_length)
  have "map2 (\<lambda>n i. if n = 1 then 0 else i) s ix = ix"
    using v unfolding valid_ix_def
    by (induction ix s rule: list_all2_induct) auto
  then show ?thesis by (simp add: bidx_def len)
qed

lemma bc_rev_same: "bc_rev s s = Some s"
  by (induction s) auto

lemma broadcast_shapes_same [simp]: "broadcast_shapes s s = Some s"
  by (simp add: broadcast_shapes_def bc_rev_same)

lemma broadcast_op_same:
  "shape a = shape b \<Longrightarrow>
   broadcast_op f a b =
     Inr \<lparr>shape = shape a,
          elem = (\<lambda>ix. f (elem a (bidx (shape a) ix)) (elem b (bidx (shape a) ix)))\<rparr>"
  by (simp add: broadcast_op_def)

lemma broadcast_shapes_keepdim:
  "s \<noteq> [] \<Longrightarrow> broadcast_shapes (butlast s @ [Suc 0]) s = Some s"
proof -
  assume "s \<noteq> []"
  then obtain s' n where s: "s = s' @ [n]" by (metis append_butlast_last_id)
  show ?thesis by (cases "n = 1") (auto simp: s broadcast_shapes_def bc_rev_same)
qed

lemma broadcast_shapes_residual:
  "Din = D \<or> Din = 1 \<Longrightarrow> broadcast_shapes [N, D] [N, Din] = Some [N, D]"
  by (auto simp: broadcast_shapes_def)

lemma broadcast_op_Inr_D:
  assumes "broadcast_op f a b = Inr c"
  shows "broadcast_shapes (shape a) (shape b) = Some (shape c)"
  using assms by (auto simp: broadcast_op_def split: option.splits)

lemma broadcast_last:
  assumes "broadcast_shapes (s @ [D]) [N, Din] = Some s'" "last s' = D"
  shows "Din = D \<or> Din = 1"
proof (rule ccontr)
  assume n: "\<not> (Din = D \<or> Din = 1)"
  then have "D = 1 \<and> (\<exists>r. bc_rev (rev s) [N] = Some r \<and> s' = rev (Din # r))"
    using assms(1) by (auto simp: broadcast_shapes_def split: if_splits)
  then have "last s' = Din" by auto
  then show False using assms(2) n by simp
qed

lemma sum_lessThan_numeral:
  "sum f {..<numeral k} = sum f {..<pred_numeral k} + f (pred_numeral k)"
  by (simp add: numeral_eq_Suc)

lemma advance_advance: "advance n (advance m g) = advance (m + n) g"
  by (simp add: advance_def ac_simps)

lemma advance_0 [simp]: "advance 0 g = g"
  by (simp add: advance_def)

section \<open>The sampling step\<close>

lemma f32_max_pos: "0 < f32_max"
  by (simp add: f32_max_def)

lemma overflow_0 [simp]: "overflow 0 = Fin 0"
  using f32_max_pos by (simp add: overflow_def)

lemma f_add_zero: "is_f32 v \<Longrightarrow> f_add v (Fin 0) = v"
  by (cases v) (auto simp: is_f32_def overflow_def)

lemma f_add_NaN [simp]: "f_add v NaN = NaN"
  by (cases v) simp_all

lemma f_mul_NaN [simp]: "f_mul v NaN = NaN"
  by (cases v) simp_all

lemma f_mul_zero_finite: "finite_f32 v \<Longrightarrow> f_mul (Fin 0) v = Fin 0"
  by (cases v) (auto simp: finite_f32_def)

text \<open>\<open>exp 100\<close> lies beyond the largest finite \<open>float32\<close>.\<close>

lemma exp_100_overflows: "overflow (exp 100) = PInf"
proof -
  have "(5 / 2 :: real) \<le> exp 1"
    using exp_lower_Taylor_quadratic[of "1 :: real"] by simp
  then have "(5 / 2 :: real) ^ 100 \<le> exp 1 ^ 100"
    by (intro power_mono) simp_all
  also have "exp (1 :: real) ^ 100 = exp 100"
    using exp_of_nat_mult[of 100 "1 :: real"] by simp
  finally have "(5 / 2 :: real) ^ 100 \<le> exp 100" .
  moreover have "f32_max < (5 / 2 :: real) ^ 100"
    by (simp add: f32_max_def power_divide divide_simps)
  ultimately show ?thesis by (simp add: overflow_def)
qed

lemma reparameterize_Inr:
  assumes "shape logvar = shape mu"
  shows "reparameterize mu logvar g =
     Inr (\<lparr>shape = shape mu,
           elem = (\<lambda>ix. f_add (elem mu (bidx (shape mu) ix))
                     (f_mul (overflow (g (ravel (shape mu) (bidx (shape mu) (bidx (shape mu) ix)))))
                        (f_exp (f_mul (Fin 0.5)
                           (elem logvar (bidx (shape mu) (bidx (shape mu) ix)))))))\<rparr>,
          advance (numel (shape mu)) g)"
  using assms
  by (simp add: reparameterize_def randn_like_def tmap_def to_f32_def broadcast_op_same)

text \<open>
  Claim C5 fails as stated: with the noise forced to zero, mean 3 and log-variance 200,
  \<open>exp (0.5 * 200)\<close> overflows to infinity, zero times infinity is NaN, and the sampling
  step returns NaN, not the mean.
\<close>

theorem reparameterize_zero_noise_overflow:
  "\<exists>z g'. reparameterize \<lparr>shape = [1], elem = (\<lambda>ix. Fin 3)\<rparr> \<lparr>shape = [1], elem = (\<lambda>ix. Fin 200)\<rparr>
             (\<lambda>k. 0) = Inr (z, g') \<and>
          elem (to_f32 (fst (randn_like \<lparr>shape = [1], elem = (\<lambda>ix. Fin 3)\<rparr> (\<lambda>k. 0)))) [0] = Fin 0 \<and>
          elem z [0] = NaN \<and>
          elem z [0] \<noteq> elem \<lparr>shape = [1], elem = (\<lambda>ix. Fin 3)\<rparr> [0]"
proof -
  have sh: "shape \<lparr>shape = [1], elem = (\<lambda>ix. Fin 200)\<rparr> = shape \<lparr>shape = [1], elem = (\<lambda>ix. Fin 3)\<rparr>"
    by simp
  have half: "overflow 100 = Fin 100"
    by (simp add: overflow_def f32_max_def)
  note r = reparameterize_Inr[OF sh, of "\<lambda>k. 0"]
  show ?thesis
    by (intro exI conjI, rule r)
       (simp_all add: half exp_100_overflows randn_like_def to_f32_def tmap_def bidx_def)
qed

text \<open>
  Claim C5, amended. For a mean and a log-variance of the same shape, the sampling step
  returns, entry by entry, mean + noise * exp (0.5 * log-variance) as float arithmetic
  evaluates it, where the noise is the tensor \<open>randn_like\<close> draws from the generator, of the
  shape of the mean; it leaves the generator advanced by one draw per entry. At an entry
  where the noise is zero, the mean is a \<open>float32\<close> value and \<open>exp (0.5 * log-variance)\<close>
  is finite, the result is exactly the mean; where the noise is zero and \<open>exp (0.5 * log-variance)\<close> overflows to infinity,
  the result is NaN.
\<close>

theorem reparameterize_float_formula:
  assumes "shape logvar = shape mu"
  shows "\<exists>z. reparameterize mu logvar g = Inr (z, advance (numel (shape mu)) g) \<and>
           shape z = shape mu \<and>
           shape (to_f32 (fst (randn_like mu g))) = shape mu \<and>
           (\<forall>ix. valid_ix (shape mu) ix \<longrightarrow>
              elem z ix = f_add (elem mu ix)
                 (f_mul (elem (to_f32 (fst (randn_like mu g))) ix)
                    (f_exp (f_mul (Fin 0.5) (elem logvar ix))))) \<and>
           (\<forall>ix. valid_ix (shape mu) ix \<and>
                 elem (to_f32 (fst (randn_like mu g))) ix = Fin 0 \<and>
                 is_f32 (elem mu ix) \<and>
                 finite_f32 (f_exp (f_mul (Fin 0.5) (elem logvar ix))) \<longrightarrow>
              elem z ix = elem mu ix) \<and>
           (\<forall>ix. valid_ix (shape mu) ix \<and>
                 elem (to_f32 (fst (randn_like mu g))) ix = Fin 0 \<and>
                 f_exp (f_mul (Fin 0.5) (elem logvar ix)) = PInf \<longrightarrow>
              elem z ix = NaN)"
  using assms
  by (auto simp: reparameterize_Inr randn_like_def to_f32_def tmap_def bidx_same
      f_add_zero f_mul_zero_finite)

text \<open>Mean 3 and log-variance 0 at two entries: noise 2 gives 5, noise 0 gives the mean.\<close>

theorem reparameterize_float_formula_witness:
  "(\<exists>z g'. reparameterize \<lparr>shape = [2], elem = (\<lambda>ix. Fin 3)\<rparr> \<lparr>shape = [2], elem = (\<lambda>ix. Fin 0)\<rparr>
             (\<lambda>k. 2) = Inr (z, g') \<and> elem z [0] = Fin 5 \<and> elem z [1] = Fin 5) \<and>
   (\<exists>z g'. reparameterize \<lparr>shape = [2], elem = (\<lambda>ix. Fin 3)\<rparr> \<lparr>shape = [2], elem = (\<lambda>ix. Fin 0)\<rparr>
             (\<lambda>k. 0) = Inr (z, g') \<and> elem z [0] = Fin 3 \<and> elem z [1] = Fin 3)"
proof -
  have v: "valid_ix [2] [0]" "valid_ix [2] [1]" by (simp_all add: valid_ix_def)
  have sh: "shape \<lparr>shape = [2], elem = (\<lambda>ix. Fin 0)\<rparr> = shape \<lparr>shape = [2], elem = (\<lambda>ix. Fin 3)\<rparr>"
    by simp
  have fin: "is_f32 (Fin 3)" "finite_f32 (f_exp (f_mul (Fin 0.5) (Fin 0)))"
    "f_exp (f_mul (Fin 0.5) (Fin 0)) = Fin 1" "f_mul (overflow 2) (Fin 1) = Fin 2"
    "f_add (Fin 3) (Fin 2) = Fin 5"
    by (simp_all add: is_f32_def finite_f32_def overflow_def f32_max_def)
  show ?thesis
    using reparameterize_float_formula[OF sh, of "\<lambda>k. 2"]
      reparameterize_float_formula[OF sh, of "\<lambda>k. 0"] v fin
    by (auto simp: randn_like_def to_f32_def tmap_def)
qed

section \<open>The loss\<close>

text \<open>For a mean and a log-variance of one common shape (in the model's own use, nodes
  \<open>\<times>\<close> latent dimensions) the KL term sums over all entries.\<close>

lemma loss_function_any_shape:
  assumes "shape recon_x = shape x" "shape logvar = shape mu"
  shows "\<exists>BCE. binary_cross_entropy_with_logits_sum recon_x x = Inr BCE \<and>
           loss_function recon_x x mu logvar =
             Inr (BCE + 1.0 *
                   (- 0.5 * (\<Sum>k<numel (shape mu).
                       1 + elem logvar (unravel (shape mu) k) - (elem mu (unravel (shape mu) k))\<^sup>2
                         - exp (elem logvar (unravel (shape mu) k)))))"
proof -
  have b: "\<And>k. k < numel (shape mu) \<Longrightarrow>
      bidx (shape mu) (unravel (shape mu) k) = unravel (shape mu) k"
    by (rule bidx_same) (rule valid_unravel)
  show ?thesis
    using assms
    by (auto simp: loss_function_def binary_cross_entropy_with_logits_sum_def tmap_def
        broadcast_op_def torch_sum_def b intro!: sum.cong)
qed

text \<open>
  Claim C4. For a reconstruction and a target of the same shape and a mean vector and a
  log-variance vector of the same length \<open>L\<close>, the loss is the reconstruction term (the
  summed binary cross entropy with logits) plus \<open>\<beta>\<close> times the KL term, with \<open>\<beta> = 1.0\<close>
  and KL term \<open>-0.5 * \<Sum>i<L. (1 + logvar[i] - mu[i]\<^sup>2 - exp logvar[i])\<close>.
\<close>

theorem loss_function_formula:
  assumes "shape recon_x = shape x" "shape mu = [L]" "shape logvar = [L]"
  shows "\<exists>BCE. binary_cross_entropy_with_logits_sum recon_x x = Inr BCE \<and>
           loss_function recon_x x mu logvar =
             Inr (BCE + 1.0 *
                   (- 0.5 * (\<Sum>i<L. 1 + elem logvar [i] - (elem mu [i])\<^sup>2 - exp (elem logvar [i]))))"
proof -
  have b: "\<And>i. i < L \<Longrightarrow> bidx [L] [i] = [i]"
    by (rule bidx_same) (simp add: valid_ix_Cons)
  show ?thesis
    using assms
    by (auto simp: loss_function_def binary_cross_entropy_with_logits_sum_def tmap_def
        broadcast_op_def torch_sum_def b intro!: sum.cong)
qed

text \<open>At a zero logit, target 0, and a standard normal latent (mean 0, log-variance 0) of
  length 2 the KL term vanishes and the loss is \<open>ln 2\<close>.\<close>

theorem loss_function_formula_witness:
  "loss_function (zeros [1]) (zeros [1]) (zeros [2]) (zeros [2]) = Inr (ln 2)"
proof -
  have sh: "shape (zeros [1]) = shape (zeros [1])" "shape (zeros [2]) = [2]"
    by (simp_all add: zeros_def)
  show ?thesis
    using loss_function_formula[OF sh(1) sh(2) sh(2)]
    by (auto simp: binary_cross_entropy_with_logits_sum_def torch_sum_def zeros_def
        sum_lessThan_numeral)
qed

section \<open>Molecule to graph\<close>

lemma bond_loop_append:
  "bond_loop bs acc = acc @ concat (map (\<lambda>(i, j). [ [int i, int j], [int j, int i] ]) bs)"
  by (induction bs acc rule: bond_loop.induct) auto

lemma atom_loop_append: "atom_loop as acc = acc @ map (\<lambda>a. [real a]) as"
  by (induction as acc rule: atom_loop.induct) auto

lemma edges_of_rows:
  assumes "\<forall>r \<in> set rows. length r = 2"
  shows "edges_of (tensor_t (torch_tensor rows)) = map (\<lambda>r. (r ! 0, r ! 1)) rows"
proof (cases "rows = []")
  case True
  then show ?thesis by (simp add: edges_of_def tensor_t_def torch_tensor_def)
next
  case False
  then have hd: "length (hd rows) = 2" using assms by (cases rows) auto
  show ?thesis
    using False hd
    by (auto simp: edges_of_def tensor_t_def torch_tensor_def edge_row_def intro!: nth_equalityI)
qed

text \<open>The edge tensor holds, for each bond in order, the edge and its reverse.\<close>

lemma edges_of_mol:
  "edges_of (data_edge_index (mol_to_graph mol)) =
     concat (map (\<lambda>(i, j). [(int i, int j), (int j, int i)]) (bonds mol))"
proof -
  let ?rows = "concat (map (\<lambda>(i, j). [ [int i, int j], [int j, int i] ]) (bonds mol))"
  have len: "\<forall>r \<in> set ?rows. length r = 2" by auto
  have "edges_of (data_edge_index (mol_to_graph mol)) = map (\<lambda>r. (r ! 0, r ! 1)) ?rows"
    using edges_of_rows[OF len] by (simp add: mol_to_graph_def bond_loop_append)
  also have "\<dots> = concat (map (\<lambda>(i, j). [(int i, int j), (int j, int i)]) (bonds mol))"
    by (simp add: map_concat comp_def case_prod_unfold)
  finally show ?thesis .
qed

lemma num_nodes_mol: "num_nodes (mol_to_graph mol) = length (atoms mol)"
  by (cases "atoms mol")
    (auto simp: num_nodes_def mol_to_graph_def torch_tensor_def atom_loop_append Let_def)

text \<open>
  Claim C6. For every molecule as RDKit builds it (bonds only between its atoms), the graph
  of \<open>mol_to_graph\<close> has one node per atom, every endpoint of every edge is a node index
  (at least 0, below the number of atoms), both directions of every bond are edges, and
  the edges are symmetric.
\<close>

theorem mol_to_graph_invariant:
  assumes "rdkit_mol mol"
  shows "num_nodes (mol_to_graph mol) = length (atoms mol) \<and>
         (\<forall>(a, b) \<in> set (edges_of (data_edge_index (mol_to_graph mol))).
            0 \<le> a \<and> a < int (num_nodes (mol_to_graph mol)) \<and>
            0 \<le> b \<and> b < int (num_nodes (mol_to_graph mol))) \<and>
         (\<forall>(i, j) \<in> set (bonds mol).
            (int i, int j) \<in> set (edges_of (data_edge_index (mol_to_graph mol))) \<and>
            (int j, int i) \<in> set (edges_of (data_edge_index (mol_to_graph mol)))) \<and>
         (\<forall>(a, b) \<in> set (edges_of (data_edge_index (mol_to_graph mol))).
            (b, a) \<in> set (edges_of (data_edge_index (mol_to_graph mol))))"
  using assms
  by (fastforce simp: edges_of_mol num_nodes_mol rdkit_mol_def list_all_iff)

theorem mol_to_graph_invariant_witness:
  "rdkit_mol ethanol \<and> num_nodes (mol_to_graph ethanol) = 3 \<and>
   edges_of (data_edge_index (mol_to_graph ethanol)) = [(0, 1), (1, 0), (1, 2), (2, 1)] \<and>
   (1, 2) \<in> set (edges_of (data_edge_index (mol_to_graph ethanol))) \<and>
   (2, 1) \<in> set (edges_of (data_edge_index (mol_to_graph ethanol)))"
proof -
  have r: "rdkit_mol ethanol" by (simp add: rdkit_mol_def ethanol_def)
  have b: "(1, 2) \<in> set (bonds ethanol)" by (simp add: ethanol_def)
  have e: "edges_of (data_edge_index (mol_to_graph ethanol)) = [(0, 1), (1, 0), (1, 2), (2, 1)]"
    by (simp add: edges_of_mol ethanol_def)
  show ?thesis
    using mol_to_graph_invariant[OF r] b r e by (auto simp: ethanol_def)
qed

section \<open>Shapes through the layer\<close>

lemma Linear_Inr_D:
  assumes "Linear L x = Inr y"
  shows "shape x \<noteq> [] \<and> last (shape x) = in_features L \<and>
         shape y = butlast (shape x) @ [out_features L]"
  using assms by (auto simp: Linear_def split: if_splits)

lemma LayerNorm_Inr_D:
  assumes "LayerNorm L x = Inr y"
  shows "shape x \<noteq> [] \<and> last (shape x) = normalized_shape L \<and> shape y = shape x"
  using assms by (auto simp: LayerNorm_def Let_def split: if_splits)

lemma project_Inr_D:
  assumes "project L l x = Inr Q"
  shows "shape x \<noteq> [] \<and> last (shape x) = in_features L"
  using assms Linear_Inr_D by (auto simp: project_def bindE_eq_Inr)

lemma project_shape:
  assumes "shape x = [N, in_features L]" "out_features L = heads l * out_channels l"
    "0 < heads l * out_channels l"
  shows "\<exists>Q. project L l x = Inr Q \<and> shape Q = [N, heads l, out_channels l]"
  using assms by (simp add: project_def Linear_def view_infer_def Let_def)

lemma wrap_dim_less: "wrap_dim d r = Inr a \<Longrightarrow> a < r"
  by (auto simp: wrap_dim_def split: if_splits)

lemma lift_shape:
  assumes "wrap_dim nd (length (shape src)) = Inr a"
    "\<forall>i \<in> set (edge_row ei r). 0 \<le> i \<and> i < int (shape src ! a)"
  shows "\<exists>t. lift src ei r nd = Inr t \<and> shape t = (shape src)[a := length (edge_row ei r)]"
  using assms by (auto simp: lift_def index_select_def list_ex_iff)

text \<open>The messages have the shape of the gathered values; in training mode the dropout
  takes one draw per score.\<close>

lemma message_shape:
  assumes "shape Q_i = s" "shape K_j = s" "shape V_j = s" "2 \<le> length s"
  shows "\<exists>m. message l Q_i K_j V_j g =
           Inr (m, if training l then advance (numel (butlast s @ [1])) g else g) \<and>
         shape m = s"
proof -
  have ne: "s \<noteq> []" using assms(4) by auto
  have len: "\<not> length (butlast s @ [1]) < 2" using assms(4) by simp
  obtain qk where qk: "broadcast_op (*) Q_i K_j = Inr qk" "shape qk = s"
    using assms(1,2) by (simp add: broadcast_op_def)
  define score0 where
    "score0 = tmap (\<lambda>v. v / sqrt (real (out_channels l))) (sum_last_keepdim qk)"
  have s0: "shape score0 = butlast s @ [1]"
    using qk ne by (simp add: score0_def tmap_def sum_last_keepdim_def)
  obtain score1 where s1: "softmax_dim1 score0 = Inr score1" "shape score1 = butlast s @ [1]"
    using s0 len by (simp add: softmax_dim1_def)
  obtain score2 where s2: "Dropout (dropout l) (training l) score1 g =
      (score2, if training l then advance (numel (butlast s @ [1])) g else g)"
    "shape score2 = butlast s @ [1]"
    using s1 by (cases "training l") (simp_all add: Dropout_def)
  obtain m where m: "broadcast_op (*) score2 V_j = Inr m" "shape m = s"
    using s2 assms(3) ne by (simp add: broadcast_op_def broadcast_shapes_keepdim)
  have "message l Q_i K_j V_j g =
      bindE (softmax_dim1 score0) (\<lambda>score.
        let (score, g') = Dropout (dropout l) (training l) score g in
        bindE (broadcast_op (*) score V_j) (\<lambda>m. Inr (m, g')))"
    by (simp add: message_def qk score0_def Let_def)
  then show ?thesis using s1 s2 m by simp
qed

text \<open>
  The aggregate: when \<open>Q\<close>, \<open>K\<close>, \<open>V\<close> have one shape of rank at least 2, the edge tensor
  has two rows, and every source and target is an index into dimension \<open>node_dim\<close>, then
  \<open>propagate\<close> returns a tensor of the shape of \<open>Q\<close> whose entry at \<open>ix\<close> is the sum of the
  messages of the edges with target \<open>ix[node_dim]\<close>.
\<close>

lemma propagate_shape:
  assumes sh: "shape Q = s" "shape K = s" "shape V = s" "2 \<le> length s"
    and ei: "length (shape ei) = 2" "shape ei ! 0 = 2"
    and nd: "wrap_dim (node_dim l) (length s) = Inr a"
    and ix0: "\<forall>i \<in> set (edge_row ei 0). 0 \<le> i \<and> i < int (s ! a)"
    and ix1: "\<forall>i \<in> set (edge_row ei 1). 0 \<le> i \<and> i < int (s ! a)"
  shows "\<exists>m :: real tensor. propagate l ei Q K V g =
           Inr (\<lparr>shape = s,
                 elem = (\<lambda>ix. \<Sum>e<length (edge_row ei 1).
                           if edge_row ei 1 ! e = int (ix ! a) then elem m (ix[a := e]) else 0)\<rparr>,
                if training l
                then advance (numel (butlast (s[a := length (edge_row ei 1)]) @ [1])) g else g)"
proof -
  have a: "a < length s" using nd by (rule wrap_dim_less)
  have E: "length (edge_row ei 0) = length (edge_row ei 1)" by (simp add: edge_row_def)
  let ?s' = "s[a := length (edge_row ei 1)]"
  obtain Q_i where Q_i: "lift Q ei 1 (node_dim l) = Inr Q_i" "shape Q_i = ?s'"
    using lift_shape[of "node_dim l" Q a ei 1] sh nd ix1 by auto
  obtain K_j where K_j: "lift K ei 0 (node_dim l) = Inr K_j" "shape K_j = ?s'"
    using lift_shape[of "node_dim l" K a ei 0] sh nd ix0 E by auto
  obtain V_j where V_j: "lift V ei 0 (node_dim l) = Inr V_j" "shape V_j = ?s'"
    using lift_shape[of "node_dim l" V a ei 0] sh nd ix0 E by auto
  obtain m where m: "message l Q_i K_j V_j g =
      Inr (m, if training l then advance (numel (butlast ?s' @ [1])) g else g)" "shape m = ?s'"
    using message_shape[of Q_i ?s' K_j V_j l g] Q_i K_j V_j sh(4) by auto
  have sc: "scatter_sum m (edge_row ei 1) a (s ! a) =
      Inr \<lparr>shape = s, elem = (\<lambda>ix. \<Sum>e<length (edge_row ei 1).
             if edge_row ei 1 ! e = int (ix ! a) then elem m (ix[a := e]) else 0)\<rparr>"
    using m a by (simp add: scatter_sum_def)
  have "propagate l ei Q K V g =
      Inr (\<lparr>shape = s, elem = (\<lambda>ix. \<Sum>e<length (edge_row ei 1).
             if edge_row ei 1 ! e = int (ix ! a) then elem m (ix[a := e]) else 0)\<rparr>,
           if training l then advance (numel (butlast ?s' @ [1])) g else g)"
    using ei sh nd Q_i K_j V_j m sc by (simp add: propagate_def check_input_def)
  then show ?thesis by (rule exI[where x = m])
qed

text \<open>
  One application of the layer to \<open>N\<close> nodes with \<open>Din\<close> features succeeds with an output
  of shape \<open>N \<times> out_channels\<close> when the submodules have the sizes the constructor gives
  them for \<open>Din\<close> input channels, \<open>Din\<close> is \<open>out_channels\<close> or 1, and every edge endpoint
  is an index into dimension \<open>node_dim\<close> of the \<open>N \<times> heads \<times> out_channels\<close> projections.
\<close>

lemma GraphVAE_forward_shape:
  assumes q: "in_features (lin_q l) = Din" "out_features (lin_q l) = heads l * out_channels l"
    and k: "in_features (lin_k l) = Din" "out_features (lin_k l) = heads l * out_channels l"
    and v: "in_features (lin_v l) = Din" "out_features (lin_v l) = heads l * out_channels l"
    and out: "in_features (lin_out l) = heads l * out_channels l"
             "out_features (lin_out l) = out_channels l"
    and ln: "normalized_shape (norm_layer l) = out_channels l"
    and x: "shape x = [N, Din]" "Din = out_channels l \<or> Din = 1"
    and pos: "0 < heads l * out_channels l"
    and ei: "length (shape ei) = 2" "shape ei ! 0 = 2"
    and nd: "wrap_dim (node_dim l) 3 = Inr a"
    and ix0: "\<forall>i \<in> set (edge_row ei 0). 0 \<le> i \<and> i < int ([N, heads l, out_channels l] ! a)"
    and ix1: "\<forall>i \<in> set (edge_row ei 1). 0 \<le> i \<and> i < int ([N, heads l, out_channels l] ! a)"
  shows "\<exists>y g'. GraphVAE_forward l x ei g = Inr (y, g') \<and> shape y = [N, out_channels l]"
proof -
  let ?s = "[N, heads l, out_channels l]"
  obtain Q where Q: "project (lin_q l) l x = Inr Q" "shape Q = ?s"
    using project_shape[of x N "lin_q l" l] q x pos by auto
  obtain K where K: "project (lin_k l) l x = Inr K" "shape K = ?s"
    using project_shape[of x N "lin_k l" l] k x pos by auto
  obtain V where V: "project (lin_v l) l x = Inr V" "shape V = ?s"
    using project_shape[of x N "lin_v l" l] v x pos by auto
  have nd': "wrap_dim (node_dim l) (length ?s) = Inr a"
    using nd by (simp add: eval_nat_numeral)
  have "\<exists>m :: real tensor. propagate l ei Q K V g =
           Inr (\<lparr>shape = ?s,
                 elem = (\<lambda>ix. \<Sum>e<length (edge_row ei 1).
                           if edge_row ei 1 ! e = int (ix ! a) then elem m (ix[a := e]) else 0)\<rparr>,
                if training l
                then advance (numel (butlast (?s[a := length (edge_row ei 1)]) @ [1])) g else g)"
    by (rule propagate_shape[OF Q(2) K(2) V(2) _ ei nd' ix0 ix1]) simp
  then obtain agg g' where agg: "propagate l ei Q K V g = Inr (agg, g')" "shape agg = ?s"
    by fastforce
  obtain flat where flat: "view_infer agg [heads l * out_channels l] = Inr flat"
      "shape flat = [N, heads l * out_channels l]"
    using agg pos by (simp add: view_infer_def Let_def)
  obtain o1 where o1: "Linear (lin_out l) flat = Inr o1" "shape o1 = [N, out_channels l]"
    using flat out by (simp add: Linear_def)
  obtain s where s: "broadcast_op (+) o1 x = Inr s" "shape s = [N, out_channels l]"
    using o1 x broadcast_shapes_residual[of Din "out_channels l" N]
    by (simp add: broadcast_op_def)
  obtain y where y: "LayerNorm (norm_layer l) s = Inr y" "shape y = [N, out_channels l]"
    using s ln by (simp add: LayerNorm_def Let_def)
  show ?thesis
    using Q K V agg flat o1 s y by (simp add: GraphVAE_forward_def)
qed

text \<open>Conversely, the residual addition and the normalisation force the feature size.\<close>

lemma GraphVAE_forward_Inr_D:
  assumes ok: "GraphVAE_forward l x ei g = Inr r"
    and sizes: "out_features (lin_out l) = out_channels l"
               "normalized_shape (norm_layer l) = out_channels l"
    and x: "shape x = [N, Din]"
  shows "Din = in_features (lin_q l) \<and> (Din = out_channels l \<or> Din = 1)"
proof -
  from ok obtain Q flat o1 s y where
    Q: "project (lin_q l) l x = Inr Q" and
    o1: "Linear (lin_out l) flat = Inr o1" and
    s: "broadcast_op (+) o1 x = Inr s" and
    y: "LayerNorm (norm_layer l) s = Inr y"
    by (auto simp: GraphVAE_forward_def bindE_eq_Inr split: prod.splits)
  have din: "Din = in_features (lin_q l)" using project_Inr_D[OF Q] x by simp
  have sh1: "shape o1 = butlast (shape flat) @ [out_channels l]"
    using Linear_Inr_D[OF o1] sizes by simp
  have bc: "broadcast_shapes (butlast (shape flat) @ [out_channels l]) [N, Din] = Some (shape s)"
    using broadcast_op_Inr_D[OF s] sh1 x by simp
  have "last (shape s) = out_channels l" using LayerNorm_Inr_D[OF y] sizes by simp
  with bc have "Din = out_channels l \<or> Din = 1" by (rule broadcast_last)
  with din show ?thesis by simp
qed

lemma GraphVAE_init_fields:
  assumes "GraphVAE_init nd in_channels D H p \<theta> = Inr l"
  shows "heads l = H" "out_channels l = D" "node_dim l = nd" "dropout l = p" "training l"
    "in_features (lin_q l) = in_channels" "out_features (lin_q l) = H * D"
    "in_features (lin_k l) = in_channels" "out_features (lin_k l) = H * D"
    "in_features (lin_v l) = in_channels" "out_features (lin_v l) = H * D"
    "in_features (lin_out l) = H * D" "out_features (lin_out l) = D"
    "normalized_shape (norm_layer l) = D"
  using assms by (auto simp: GraphVAE_init_def nn_Linear_def split: if_splits)

text \<open>The constructor accepts any pair of channel counts.\<close>

lemma GraphVAE_init_accepts:
  "0 \<le> p \<Longrightarrow> p \<le> 1 \<Longrightarrow> \<exists>l. GraphVAE_init nd in_channels D H p \<theta> = Inr l"
  by (simp add: GraphVAE_init_def)

section \<open>Evaluation mode\<close>

text \<open>In evaluation mode the layers neither read nor advance the generator.\<close>

lemma message_eval:
  "\<not> training l \<Longrightarrow>
   message l Q_i K_j V_j g = bindE (message l Q_i K_j V_j g0) (\<lambda>(m, _). Inr (m, g))"
  by (auto simp: message_def Dropout_def bindE_def Let_def split: sum.splits)

lemma propagate_eval:
  assumes "\<not> training l"
  shows "propagate l ei Q K V g = bindE (propagate l ei Q K V g0) (\<lambda>(out, _). Inr (out, g))"
  unfolding propagate_def message_eval[OF assms, of _ _ _ g g0]
  by (auto simp: bindE_def split: sum.splits)

lemma GraphVAE_forward_eval:
  assumes "\<not> training l"
  shows "GraphVAE_forward l x ei g =
         bindE (GraphVAE_forward l x ei g0) (\<lambda>(y, _). Inr (y, g))"
  unfolding GraphVAE_forward_def propagate_eval[OF assms, of _ _ _ _ g g0]
  by (auto simp: bindE_def split: sum.splits)

lemma layer_loop_eval:
  assumes "\<forall>l \<in> set ls. \<not> training l"
  shows "layer_loop ls x ei g = bindE (layer_loop ls x ei g0) (\<lambda>(y, _). Inr (y, g))"
  using assms
proof (induction ls arbitrary: x g g0)
  case Nil
  then show ?case by simp
next
  case (Cons l ls)
  then have l: "\<not> training l" and ls: "\<forall>l \<in> set ls. \<not> training l" by auto
  show ?case
  proof (cases "GraphVAE_forward l x ei g0")
    case (Inl e)
    then show ?thesis using GraphVAE_forward_eval[OF l, of x ei g g0] by simp
  next
    case (Inr r)
    obtain y g1 where r: "r = (y, g1)" by (cases r)
    have fwd: "GraphVAE_forward l x ei g = Inr (y, g)"
      using GraphVAE_forward_eval[OF l, of x ei g g0] Inr r by simp
    show ?thesis
      using Inr r fwd Cons.IH[OF ls, of y g g1] by simp
  qed
qed

lemma encode_eval:
  assumes "\<forall>l \<in> set (layers m). \<not> training l"
  shows "encode m x ei g = bindE (encode m x ei g0) (\<lambda>(r, _). Inr (r, g))"
  unfolding encode_def layer_loop_eval[OF assms, of x ei g g0]
  by (auto simp: bindE_def split: sum.splits)

section \<open>The demonstration layer on the ethanol graph\<close>

lemma demo_layer_init:
  "GraphVAE_init nd 1 2 4 0.1 demo_values = Inr (demo_layer nd True)"
  by (simp add: GraphVAE_init_def demo_layer_def)

lemma demo_layer_mode: "(demo_layer nd True)\<lparr>training := b\<rparr> = demo_layer nd b"
  by (simp add: demo_layer_def)

lemma demo_model_init:
  "VAE_GNN_init nd 1 2 1 demo_model_values = Inr (demo_model nd True)"
  by (simp add: VAE_GNN_init_def demo_model_values_def demo_model_def GraphVAE_init_def
      demo_layer_def)

lemma demo_model_eval: "VAE_GNN_eval (demo_model nd b) = demo_model nd False"
  by (simp add: VAE_GNN_eval_def GraphVAE_eval_def demo_model_def demo_layer_def)

lemma ethanol_x: "shape (data_x (mol_to_graph ethanol)) = [3, 1]"
  by (simp add: mol_to_graph_def ethanol_def torch_tensor_def)

lemma ethanol_x00: "elem (data_x (mol_to_graph ethanol)) [0, 0] = 6"
  by (simp add: mol_to_graph_def ethanol_def torch_tensor_def)

lemma ethanol_edge_shape: "shape (data_edge_index (mol_to_graph ethanol)) = [2, 4]"
  by (simp add: mol_to_graph_def ethanol_def torch_tensor_def tensor_t_def)

lemma upt_4: "[0..<4] = [0, 1, 2, 3]"
  by (simp add: upt_rec)

lemma ethanol_rows:
  "edge_row (data_edge_index (mol_to_graph ethanol)) 0 = [0, 1, 1, 2]"
  "edge_row (data_edge_index (mol_to_graph ethanol)) 1 = [1, 0, 2, 1]"
  "edge_row (data_edge_index (mol_to_graph ethanol)) (Suc 0) = [1, 0, 2, 1]"
  by (simp_all add: edge_row_def mol_to_graph_def ethanol_def torch_tensor_def tensor_t_def upt_4)

text \<open>The projections of the demonstration layer: queries and keys 0, values 1.\<close>

lemma demo_Q:
  "project (lin_q (demo_layer nd b)) (demo_layer nd b) (data_x (mol_to_graph ethanol)) =
     Inr (zeros [3, 4, 2])"
  by (simp add: project_def Linear_def view_infer_def demo_layer_def demo_values_def
      nn_Linear_def ethanol_x Let_def zeros_def)

lemma demo_K:
  "project (lin_k (demo_layer nd b)) (demo_layer nd b) (data_x (mol_to_graph ethanol)) =
     Inr (zeros [3, 4, 2])"
  by (simp add: project_def Linear_def view_infer_def demo_layer_def demo_values_def
      nn_Linear_def ethanol_x Let_def zeros_def)

lemma demo_V:
  "project (lin_v (demo_layer nd b)) (demo_layer nd b) (data_x (mol_to_graph ethanol)) =
     Inr \<lparr>shape = [3, 4, 2], elem = (\<lambda>ix. 1)\<rparr>"
  by (simp add: project_def Linear_def view_infer_def demo_layer_def demo_values_def
      nn_Linear_def ethanol_x Let_def)

lemmas propagate_eval_defs =
  propagate_def check_input_def ethanol_edge_shape ethanol_rows lift_def wrap_dim_def
  index_select_def message_def broadcast_op_def sum_last_keepdim_def tmap_def softmax_dim1_def
  Dropout_def scatter_sum_def Let_def bidx_def sum_lessThan_numeral broadcast_shapes_def zeros_def

text \<open>
  The aggregate at position \<open>[0, 0, 0]\<close>. All scores are 0, so the softmax along dimension
  1 gives 1/4 whether that dimension holds the 4 edges (\<open>node_dim = -2\<close>) or the 4 heads
  (\<open>node_dim = 0\<close>). In evaluation mode the single edge into position 0 contributes 1/4.
\<close>

lemma demo_agg_eval_m2:
  "\<exists>agg. propagate (demo_layer (-2) False) (data_edge_index (mol_to_graph ethanol))
     (zeros [3, 4, 2]) (zeros [3, 4, 2]) \<lparr>shape = [3, 4, 2], elem = (\<lambda>ix. 1)\<rparr> g = Inr (agg, g) \<and>
     shape agg = [3, 4, 2] \<and> elem agg [0, 0, 0] = 1 / 4"
  by (simp add: propagate_eval_defs demo_layer_def[of "-2" False] split del: if_split)

lemma demo_agg_eval_0:
  "\<exists>agg. propagate (demo_layer 0 False) (data_edge_index (mol_to_graph ethanol))
     (zeros [3, 4, 2]) (zeros [3, 4, 2]) \<lparr>shape = [3, 4, 2], elem = (\<lambda>ix. 1)\<rparr> g = Inr (agg, g) \<and>
     shape agg = [3, 4, 2] \<and> elem agg [0, 0, 0] = 1 / 4"
  by (simp add: propagate_eval_defs demo_layer_def[of 0 False] split del: if_split)

text \<open>In training mode with the seeded generator: the first call keeps the score (scaled
  by 1 / 0.9), the second call, on the generator the first one left, drops it.\<close>

lemma demo_agg_train_m2_first:
  "\<exists>agg. propagate (demo_layer (-2) True) (data_edge_index (mol_to_graph ethanol))
     (zeros [3, 4, 2]) (zeros [3, 4, 2]) \<lparr>shape = [3, 4, 2], elem = (\<lambda>ix. 1)\<rparr> demo_generator
       = Inr (agg, advance 12 demo_generator) \<and>
     shape agg = [3, 4, 2] \<and> elem agg [0, 0, 0] = 5 / 18"
  by (simp add: propagate_eval_defs demo_layer_def[of "-2" True] demo_generator_def
      split del: if_split)

lemma demo_agg_train_m2_second:
  "\<exists>agg. propagate (demo_layer (-2) True) (data_edge_index (mol_to_graph ethanol))
     (zeros [3, 4, 2]) (zeros [3, 4, 2]) \<lparr>shape = [3, 4, 2], elem = (\<lambda>ix. 1)\<rparr>
     (advance 12 demo_generator) = Inr (agg, advance 24 demo_generator) \<and>
     shape agg = [3, 4, 2] \<and> elem agg [0, 0, 0] = 0"
  by (simp add: propagate_eval_defs demo_layer_def[of "-2" True] demo_generator_def advance_def
      split del: if_split)

lemma demo_agg_train_0_first:
  "\<exists>agg. propagate (demo_layer 0 True) (data_edge_index (mol_to_graph ethanol))
     (zeros [3, 4, 2]) (zeros [3, 4, 2]) \<lparr>shape = [3, 4, 2], elem = (\<lambda>ix. 1)\<rparr> demo_generator
       = Inr (agg, advance 16 demo_generator) \<and>
     shape agg = [3, 4, 2] \<and> elem agg [0, 0, 0] = 5 / 18"
  by (simp add: propagate_eval_defs demo_layer_def[of 0 True] demo_generator_def
      split del: if_split)

lemma demo_agg_train_0_second:
  "\<exists>agg. propagate (demo_layer 0 True) (data_edge_index (mol_to_graph ethanol))
     (zeros [3, 4, 2]) (zeros [3, 4, 2]) \<lparr>shape = [3, 4, 2], elem = (\<lambda>ix. 1)\<rparr>
     (advance 16 demo_generator) = Inr (agg, advance 32 demo_generator) \<and>
     shape agg = [3, 4, 2] \<and> elem agg [0, 0, 0] = 0"
  by (simp add: propagate_eval_defs demo_layer_def[of 0 True] demo_generator_def advance_def
      split del: if_split)

text \<open>
  From the aggregate to the output of the layer: with \<open>c\<close> the aggregate at \<open>[0, 0, 0]\<close>,
  row 0 before the normalisation is \<open>(c + 6, 6)\<close>, so its mean is \<open>c / 2 + 6\<close> and its
  variance \<open>c\<^sup>2 / 4\<close>.
\<close>

lemma demo_forward_value:
  assumes agg: "propagate (demo_layer nd tr) (data_edge_index (mol_to_graph ethanol))
       (zeros [3, 4, 2]) (zeros [3, 4, 2]) \<lparr>shape = [3, 4, 2], elem = (\<lambda>ix. 1)\<rparr> g = Inr (agg, g')"
    and sh: "shape agg = [3, 4, 2]"
    and c: "elem agg [0, 0, 0] = c"
  shows "\<exists>y. GraphVAE_forward (demo_layer nd tr) (data_x (mol_to_graph ethanol))
            (data_edge_index (mol_to_graph ethanol)) g = Inr (y, g') \<and>
          shape y = [3, 2] \<and>
          elem y [0, 0] = (c / 2) / sqrt (c\<^sup>2 / 4 + 1 / 100000)"
proof -
  let ?l = "demo_layer nd tr"
  obtain flat where flat: "view_infer agg [heads ?l * out_channels ?l] = Inr flat"
    "shape flat = [3, 8]" "elem flat [0, 0] = c"
    using sh c by (simp add: view_infer_def Let_def demo_layer_def)
  obtain o1 where o1: "Linear (lin_out ?l) flat = Inr o1" "shape o1 = [3, 2]"
    "elem o1 [0, 0] = c" "elem o1 [0, 1] = 0"
    using flat
    by (simp add: Linear_def demo_layer_def demo_values_def nn_Linear_def sum_lessThan_numeral)
  obtain s where s: "broadcast_op (+) o1 (data_x (mol_to_graph ethanol)) = Inr s"
    "shape s = [3, 2]" "elem s [0, 0] = c + 6" "elem s [0, 1] = 6"
    using o1
    by (simp add: broadcast_op_def broadcast_shapes_def ethanol_x bidx_def ethanol_x00)
  have mean: "row_mean s 2 [0, 0] = c / 2 + 6"
    using s by (simp add: row_mean_def sum_lessThan_numeral)
  have var: "row_var s 2 [0, 0] = c\<^sup>2 / 4"
    using s by (simp add: row_var_def mean sum_lessThan_numeral power2_eq_square field_simps)
  obtain y where y: "LayerNorm (norm_layer ?l) s = Inr y" "shape y = [3, 2]"
    "elem y [0, 0] = (elem s [0, 0] - row_mean s 2 [0, 0]) / sqrt (row_var s 2 [0, 0] + 1 / 100000)"
    using s(1,2)
    by (simp add: LayerNorm_def Let_def demo_layer_def demo_values_def)
  have y00: "elem y [0, 0] = (c / 2) / sqrt (c\<^sup>2 / 4 + 1 / 100000)"
    using y(3) s(3) by (simp add: mean var)
  show ?thesis
    using agg flat o1 s y(1,2) y00 by (simp add: GraphVAE_forward_def demo_Q demo_K demo_V)
qed

lemma demo_encode_value:
  assumes "propagate (demo_layer nd tr) (data_edge_index (mol_to_graph ethanol))
       (zeros [3, 4, 2]) (zeros [3, 4, 2]) \<lparr>shape = [3, 4, 2], elem = (\<lambda>ix. 1)\<rparr> g = Inr (agg, g')"
    and "shape agg = [3, 4, 2]"
    and "elem agg [0, 0, 0] = c"
  shows "\<exists>mu logvar. encode (demo_model nd tr) (data_x (mol_to_graph ethanol))
            (data_edge_index (mol_to_graph ethanol)) g = Inr ((mu, logvar), g') \<and>
          shape mu = [3, 1] \<and> shape logvar = [3, 1] \<and>
          elem mu [0, 0] = (c / 2) / sqrt (c\<^sup>2 / 4 + 1 / 100000)"
proof -
  obtain y where y: "GraphVAE_forward (demo_layer nd tr) (data_x (mol_to_graph ethanol))
            (data_edge_index (mol_to_graph ethanol)) g = Inr (y, g')" "shape y = [3, 2]"
          "elem y [0, 0] = (c / 2) / sqrt (c\<^sup>2 / 4 + 1 / 100000)"
    using demo_forward_value[OF assms] by blast
  show ?thesis
    using y
    by (simp add: encode_def demo_model_def demo_model_values_def Linear_def nn_Linear_def
        sum_lessThan_numeral)
qed

lemma demo_encode_eval_mode:
  "\<exists>mu logvar. encode (demo_model (-2) False) (data_x (mol_to_graph ethanol))
       (data_edge_index (mol_to_graph ethanol)) g = Inr ((mu, logvar), g) \<and>
     shape mu = [3, 1] \<and> shape logvar = [3, 1]"
proof -
  obtain agg where agg:
    "propagate (demo_layer (-2) False) (data_edge_index (mol_to_graph ethanol))
       (zeros [3, 4, 2]) (zeros [3, 4, 2]) \<lparr>shape = [3, 4, 2], elem = (\<lambda>ix. 1)\<rparr> g = Inr (agg, g)"
    "shape agg = [3, 4, 2]" "elem agg [0, 0, 0] = 1 / 4"
    using demo_agg_eval_m2 by blast
  show ?thesis using demo_encode_value[OF agg] by blast
qed

section \<open>The layer accepts only matching feature sizes\<close>

text \<open>
  Claim C9. A layer built by the constructor for \<open>in_channels\<close> inputs and \<open>D\<close> outputs,
  in either mode, returns on node features of shape \<open>N \<times> Din\<close> only if \<open>Din\<close> is
  \<open>in_channels\<close> and is \<open>D\<close> or 1: for any other \<open>Din\<close> the call raises (at the
  projections, the residual addition or the normalisation), although the constructor took
  the two channel counts without complaint.
\<close>

theorem forward_only_matching_dims:
  assumes "GraphVAE_init nd in_channels D H p \<theta> = Inr l"
    and "GraphVAE_forward (l\<lparr>training := b\<rparr>) x edge_index g = Inr r"
    and "shape x = [N, Din]"
  shows "Din = in_channels \<and> (Din = D \<or> Din = 1)"
  using GraphVAE_forward_Inr_D[OF assms(2) _ _ assms(3)] GraphVAE_init_fields[OF assms(1)]
  by auto

theorem forward_only_matching_dims_witness:
  "GraphVAE_init (-2) 1 2 4 0.1 demo_values = Inr (demo_layer (-2) True) \<and>
   shape (data_x (mol_to_graph ethanol)) = [3, 1] \<and>
   (\<exists>r. GraphVAE_forward ((demo_layer (-2) True)\<lparr>training := False\<rparr>)
          (data_x (mol_to_graph ethanol)) (data_edge_index (mol_to_graph ethanol)) demo_generator
        = Inr r) \<and>
   (1 :: nat) = 1 \<and> ((1 :: nat) = 2 \<or> (1 :: nat) = 1)"
proof -
  obtain agg where agg:
    "propagate (demo_layer (-2) False) (data_edge_index (mol_to_graph ethanol))
       (zeros [3, 4, 2]) (zeros [3, 4, 2]) \<lparr>shape = [3, 4, 2], elem = (\<lambda>ix. 1)\<rparr> demo_generator
     = Inr (agg, demo_generator)"
    "shape agg = [3, 4, 2]" "elem agg [0, 0, 0] = 1 / 4"
    using demo_agg_eval_m2 by blast
  obtain y where y: "GraphVAE_forward ((demo_layer (-2) True)\<lparr>training := False\<rparr>)
       (data_x (mol_to_graph ethanol)) (data_edge_index (mol_to_graph ethanol)) demo_generator
     = Inr (y, demo_generator)"
    using demo_forward_value[OF agg] by (auto simp: demo_layer_mode)
  have d: "(1 :: nat) = 1 \<and> ((1 :: nat) = 2 \<or> (1 :: nat) = 1)"
    using forward_only_matching_dims[OF demo_layer_init y ethanol_x] .
  show ?thesis
    using demo_layer_init[of "-2"] ethanol_x y d by blast
qed

section \<open>The autoencoder's forward pass\<close>

lemma decode_shape:
  assumes "shape z = [N, in_features (fc_decode m)]"
    "out_features (fc_decode m) = in_features (fc_out m)"
  shows "\<exists>out. decode m z = Inr out \<and> shape out = [N, out_features (fc_out m)]"
  using assms by (simp add: decode_def Linear_def tmap_def Let_def)

lemma reparameterize_shape:
  assumes "shape logvar = shape mu"
  shows "\<exists>z g'. reparameterize mu logvar g = Inr (z, g') \<and> shape z = shape mu"
  using reparameterize_Inr[OF assms, of g] by simp

text \<open>
  Claim C3 fails as stated: \<open>forward\<close> does not return \<open>None\<close> for every input, since an
  exception of \<open>encode\<close> leaves it. On the graph \<open>mol_to_graph\<close> builds from a single atom
  the first layer raises \<open>ValueError\<close>, and so does \<open>forward\<close>.
\<close>

theorem forward_raises_on_single_atom:
  "VAE_GNN_forward (demo_model (-2) True) (data_x (mol_to_graph methane))
     (data_edge_index (mol_to_graph methane)) demo_generator = Inl ValueError"
  by (simp add: VAE_GNN_forward_def encode_def demo_model_def GraphVAE_forward_def project_def
      Linear_def view_infer_def demo_layer_def nn_Linear_def propagate_def check_input_def
      mol_to_graph_def methane_def torch_tensor_def tensor_t_def Let_def split del: if_split)

text \<open>
  Claim C3, amended. \<open>VAE_GNN.forward\<close> never returns a value other than \<open>None\<close>. It runs
  \<open>encode\<close>, the sampling step and \<open>decode\<close> in this order: an exception of any of the
  three is the outcome of the call, and when all three complete (the mean and
  log-variance, the sampled latent and the decoded output are computed) the call returns
  \<open>None\<close> and leaves the generator as the sampling step left it.
\<close>

theorem forward_raises_or_returns_None:
  "(\<forall>r g'. VAE_GNN_forward m x edge_index g = Inr (r, g') \<longrightarrow> r = PyNone) \<and>
   (\<forall>e. encode m x edge_index g = Inl e \<longrightarrow> VAE_GNN_forward m x edge_index g = Inl e) \<and>
   (\<forall>mu logvar g1 e.
      encode m x edge_index g = Inr ((mu, logvar), g1) \<and>
      reparameterize (to_f32 mu) (to_f32 logvar) g1 = Inl e \<longrightarrow>
      VAE_GNN_forward m x edge_index g = Inl e) \<and>
   (\<forall>mu logvar g1 z g2 e.
      encode m x edge_index g = Inr ((mu, logvar), g1) \<and>
      reparameterize (to_f32 mu) (to_f32 logvar) g1 = Inr (z, g2) \<and>
      decode m (tmap real_of_f32 z) = Inl e \<longrightarrow>
      VAE_GNN_forward m x edge_index g = Inl e) \<and>
   (\<forall>mu logvar g1 z g2 out.
      encode m x edge_index g = Inr ((mu, logvar), g1) \<and>
      reparameterize (to_f32 mu) (to_f32 logvar) g1 = Inr (z, g2) \<and>
      decode m (tmap real_of_f32 z) = Inr out \<longrightarrow>
      VAE_GNN_forward m x edge_index g = Inr (PyNone, g2))"
  by (auto simp: VAE_GNN_forward_def bindE_def split: sum.splits prod.splits)

text \<open>
  On the ethanol graph the demonstration model computes all three steps and \<open>forward\<close>
  returns \<open>None\<close>. The same model with a decoder input of the wrong size (3 instead of the
  latent dimension 1) still encodes and samples; \<open>decode\<close> raises, and so does \<open>forward\<close>.
\<close>

theorem forward_raises_or_returns_None_witness:
  "(\<exists>g'. VAE_GNN_forward (demo_model (-2) False) (data_x (mol_to_graph ethanol))
          (data_edge_index (mol_to_graph ethanol)) demo_generator = Inr (PyNone, g')) \<and>
   VAE_GNN_forward ((demo_model (-2) False)\<lparr>fc_decode := nn_Linear 3 2 (\<lambda>j k. 1) (\<lambda>j. 0)\<rparr>)
     (data_x (mol_to_graph ethanol)) (data_edge_index (mol_to_graph ethanol)) demo_generator
     = Inl RuntimeError"
proof -
  let ?m = "demo_model (-2) False"
  let ?m' = "?m\<lparr>fc_decode := nn_Linear 3 2 (\<lambda>j k. 1) (\<lambda>j. 0)\<rparr>"
  let ?x = "data_x (mol_to_graph ethanol)" and ?ei = "data_edge_index (mol_to_graph ethanol)"
  obtain mu logvar where e: "encode ?m ?x ?ei demo_generator = Inr ((mu, logvar), demo_generator)"
    "shape mu = [3, 1]" "shape logvar = [3, 1]"
    using demo_encode_eval_mode by blast
  have e': "encode ?m' ?x ?ei demo_generator = Inr ((mu, logvar), demo_generator)"
    using e(1) by (simp add: encode_def)
  obtain z g2 where z: "reparameterize (to_f32 mu) (to_f32 logvar) demo_generator = Inr (z, g2)"
    "shape z = [3, 1]"
    using reparameterize_shape[of "to_f32 logvar" "to_f32 mu" demo_generator] e(2,3)
    by (auto simp: to_f32_def tmap_def)
  obtain out where out: "decode ?m (tmap real_of_f32 z) = Inr out"
    using decode_shape[of "tmap real_of_f32 z" 3 ?m] z(2)
    by (auto simp: demo_model_def nn_Linear_def tmap_def)
  have bad: "decode ?m' (tmap real_of_f32 z) = Inl RuntimeError"
    using z(2) by (simp add: decode_def Linear_def nn_Linear_def tmap_def)
  have one: "VAE_GNN_forward ?m ?x ?ei demo_generator = Inr (PyNone, g2)"
    using forward_raises_or_returns_None[of ?m ?x ?ei demo_generator] e(1) z(1) out by blast
  have two: "VAE_GNN_forward ?m' ?x ?ei demo_generator = Inl RuntimeError"
    using forward_raises_or_returns_None[of ?m' ?x ?ei demo_generator] e' z(1) bad by blast
  show ?thesis using one two by blast
qed

section \<open>Sampling leaves the parameters alone\<close>

lemma GraphVAE_parameters_eval: "GraphVAE_parameters (GraphVAE_eval l) = GraphVAE_parameters l"
  by (simp add: GraphVAE_parameters_def GraphVAE_eval_def)

lemma VAE_GNN_parameters_eval: "VAE_GNN_parameters (VAE_GNN_eval m) = VAE_GNN_parameters m"
  by (simp add: VAE_GNN_parameters_def VAE_GNN_eval_def GraphVAE_parameters_eval)

lemma sample_loop_length:
  assumes "in_features (fc_decode m) = out_features (fc_mu m)"
    "out_features (fc_decode m) = in_features (fc_out m)"
  shows "\<exists>samples g'. sample_loop m n acc g = (Inr samples, g') \<and> length samples = length acc + n"
proof (induction n arbitrary: acc g)
  case 0
  then show ?case by simp
next
  case (Suc n)
  obtain z g1 where z: "torch_randn [1, out_features (fc_mu m)] g = (z, g1)"
    "shape z = [1, out_features (fc_mu m)]"
    by (simp add: torch_randn_def)
  obtain out where out: "decode m z = Inr out"
    using decode_shape[of z 1 m] z(2) assms by auto
  show ?case
    using z(1) out Suc.IH[of "acc @ [out]" g1] by auto
qed

text \<open>
  Claim C10. Whatever the model, the argument \<open>num_samples\<close> and the generator, and whether
  \<open>generate_molecule\<close> returns or raises, the model it leaves behind is the model it was
  given with the mode flags cleared by \<open>model.eval()\<close>, and the parameters of that model
  are the parameters it was given.
\<close>

theorem generate_molecule_frame:
  "fst (snd (generate_molecule model num_samples g)) = VAE_GNN_eval model \<and>
   VAE_GNN_parameters (fst (snd (generate_molecule model num_samples g))) =
     VAE_GNN_parameters model"
  by (simp add: generate_molecule_def Let_def VAE_GNN_parameters_eval
      split: py_arg.splits prod.splits)

text \<open>Two samples from the demonstration model, and the call of the notebook's last cell,
  which passes a string.\<close>

theorem generate_molecule_frame_witness:
  "(\<exists>samples g'. generate_molecule (demo_model (-2) True) (PyInt 2) demo_generator =
        (Inr samples, demo_model (-2) False, g') \<and> length samples = 2) \<and>
   generate_molecule (demo_model (-2) True) (PyStr ''[*:0]NC1CN2CCC1CC2'') demo_generator =
        (Inl TypeError, demo_model (-2) False, demo_generator) \<and>
   VAE_GNN_parameters (demo_model (-2) False) = VAE_GNN_parameters (demo_model (-2) True)"
proof -
  obtain samples g' where s:
    "sample_loop (demo_model (-2) False) 2 [] demo_generator = (Inr samples, g')"
    "length samples = 2"
    using sample_loop_length[of "demo_model (-2) False" 2 "[]" demo_generator]
    by (auto simp: demo_model_def nn_Linear_def)
  have one: "generate_molecule (demo_model (-2) True) (PyInt 2) demo_generator =
        (Inr samples, demo_model (-2) False, g')"
    using s(1) by (simp add: generate_molecule_def demo_model_eval)
  have two: "generate_molecule (demo_model (-2) True) (PyStr ''[*:0]NC1CN2CCC1CC2'') demo_generator =
        (Inl TypeError, demo_model (-2) False, demo_generator)"
    by (simp add: generate_molecule_def demo_model_eval)
  show ?thesis
    using generate_molecule_frame[of "demo_model (-2) True" "PyInt 2" demo_generator] one two s(2)
    by (auto simp: demo_model_eval)
qed

section \<open>Determinism of the encoder\<close>

text \<open>
  Claim C7, as stated, fails: a model fresh from its constructor is in training mode, where
  the dropout inside \<open>message\<close> draws from the generator. With the generator seeded once,
  the fixed 3-node, 2-bond ethanol graph and fixed parameters, two successive calls of
  \<open>encode\<close> return different means. This holds for both values of the library's default
  \<open>node_dim\<close>.
\<close>

theorem encode_twice_differs_in_training_mode:
  "VAE_GNN_init (-2) 1 2 1 demo_model_values = Inr (demo_model (-2) True) \<and>
   (\<exists>first second.
      encode_twice (demo_model (-2) True) (data_x (mol_to_graph ethanol))
        (data_edge_index (mol_to_graph ethanol)) demo_generator = Inr (first, second) \<and>
      elem (fst first) [0, 0] \<noteq> elem (fst second) [0, 0]) \<and>
   (\<exists>first second.
      encode_twice (demo_model 0 True) (data_x (mol_to_graph ethanol))
        (data_edge_index (mol_to_graph ethanol)) demo_generator = Inr (first, second) \<and>
      elem (fst first) [0, 0] \<noteq> elem (fst second) [0, 0])"
proof -
  let ?x = "data_x (mol_to_graph ethanol)" and ?ei = "data_edge_index (mol_to_graph ethanol)"
  let ?V = "\<lparr>shape = [3, 4, 2], elem = (\<lambda>ix. 1 :: real)\<rparr>"
  have kept: "(5 / 18 / 2) / sqrt ((5 / 18)\<^sup>2 / 4 + 1 / 100000) \<noteq> (0 :: real)"
    by (simp add: power2_eq_square)
  have dropped: "(0 / 2) / sqrt (0\<^sup>2 / 4 + 1 / 100000) = (0 :: real)"
    by simp
  have m2: "\<exists>first second.
      encode_twice (demo_model (-2) True) ?x ?ei demo_generator = Inr (first, second) \<and>
      elem (fst first) [0, 0] \<noteq> elem (fst second) [0, 0]"
  proof -
    obtain a1 where a1: "propagate (demo_layer (-2) True) ?ei (zeros [3, 4, 2]) (zeros [3, 4, 2])
        ?V demo_generator = Inr (a1, advance 12 demo_generator)"
      "shape a1 = [3, 4, 2]" "elem a1 [0, 0, 0] = 5 / 18"
      using demo_agg_train_m2_first by blast
    obtain a2 where a2: "propagate (demo_layer (-2) True) ?ei (zeros [3, 4, 2]) (zeros [3, 4, 2])
        ?V (advance 12 demo_generator) = Inr (a2, advance 24 demo_generator)"
      "shape a2 = [3, 4, 2]" "elem a2 [0, 0, 0] = 0"
      using demo_agg_train_m2_second by blast
    obtain mu1 lv1 where e1: "encode (demo_model (-2) True) ?x ?ei demo_generator =
        Inr ((mu1, lv1), advance 12 demo_generator)"
      "elem mu1 [0, 0] = (5 / 18 / 2) / sqrt ((5 / 18)\<^sup>2 / 4 + 1 / 100000)"
      using demo_encode_value[OF a1] by blast
    obtain mu2 lv2 where e2: "encode (demo_model (-2) True) ?x ?ei (advance 12 demo_generator) =
        Inr ((mu2, lv2), advance 24 demo_generator)"
      "elem mu2 [0, 0] = (0 / 2) / sqrt (0\<^sup>2 / 4 + 1 / 100000)"
      using demo_encode_value[OF a2] by blast
    have "elem mu1 [0, 0] \<noteq> elem mu2 [0, 0]"
      unfolding e1(2) e2(2) dropped using kept .
    then show ?thesis using e1(1) e2(1) by (simp add: encode_twice_def)
  qed
  have z: "\<exists>first second.
      encode_twice (demo_model 0 True) ?x ?ei demo_generator = Inr (first, second) \<and>
      elem (fst first) [0, 0] \<noteq> elem (fst second) [0, 0]"
  proof -
    obtain a1 where a1: "propagate (demo_layer 0 True) ?ei (zeros [3, 4, 2]) (zeros [3, 4, 2])
        ?V demo_generator = Inr (a1, advance 16 demo_generator)"
      "shape a1 = [3, 4, 2]" "elem a1 [0, 0, 0] = 5 / 18"
      using demo_agg_train_0_first by blast
    obtain a2 where a2: "propagate (demo_layer 0 True) ?ei (zeros [3, 4, 2]) (zeros [3, 4, 2])
        ?V (advance 16 demo_generator) = Inr (a2, advance 32 demo_generator)"
      "shape a2 = [3, 4, 2]" "elem a2 [0, 0, 0] = 0"
      using demo_agg_train_0_second by blast
    obtain mu1 lv1 where e1: "encode (demo_model 0 True) ?x ?ei demo_generator =
        Inr ((mu1, lv1), advance 16 demo_generator)"
      "elem mu1 [0, 0] = (5 / 18 / 2) / sqrt ((5 / 18)\<^sup>2 / 4 + 1 / 100000)"
      using demo_encode_value[OF a1] by blast
    obtain mu2 lv2 where e2: "encode (demo_model 0 True) ?x ?ei (advance 16 demo_generator) =
        Inr ((mu2, lv2), advance 32 demo_generator)"
      "elem mu2 [0, 0] = (0 / 2) / sqrt (0\<^sup>2 / 4 + 1 / 100000)"
      using demo_encode_value[OF a2] by blast
    have "elem mu1 [0, 0] \<noteq> elem mu2 [0, 0]"
      unfolding e1(2) e2(2) dropped using kept .
    then show ?thesis using e1(1) e2(1) by (simp add: encode_twice_def)
  qed
  show ?thesis using demo_model_init[of "-2"] m2 z by blast
qed

text \<open>
  Claim C7, amended. For a model whose layers are in evaluation mode (as \<open>model.eval()\<close>
  leaves them), \<open>encode\<close> neither reads nor advances the generator: its output is the same
  from every generator state, and of two successive calls the second returns exactly what
  the first returned (or both raise).
\<close>

theorem encode_deterministic_in_eval_mode:
  assumes "list_all (\<lambda>l. \<not> training l) (layers m)"
  shows "(\<forall>g0. encode m x edge_index g =
               bindE (encode m x edge_index g0) (\<lambda>(r, _). Inr (r, g))) \<and>
         encode_twice m x edge_index g =
           bindE (encode m x edge_index g) (\<lambda>(first, _). Inr (first, first))"
proof -
  have ev: "\<forall>l \<in> set (layers m). \<not> training l"
    using assms by (simp add: list_all_iff)
  have indep: "\<And>g g0. encode m x edge_index g =
      bindE (encode m x edge_index g0) (\<lambda>(r, _). Inr (r, g))"
    by (rule encode_eval[OF ev])
  have twice: "encode_twice m x edge_index g =
      bindE (encode m x edge_index g) (\<lambda>(first, _). Inr (first, first))"
  proof (cases "encode m x edge_index g")
    case (Inl e)
    then show ?thesis by (simp add: encode_twice_def)
  next
    case (Inr r)
    obtain first g1 where r: "r = (first, g1)" by (cases r)
    have "encode m x edge_index g1 = Inr (first, g1)"
      using indep[of g1 g] Inr r by simp
    then show ?thesis using Inr r by (simp add: encode_twice_def)
  qed
  show ?thesis using indep twice by blast
qed

theorem encode_deterministic_in_eval_mode_witness:
  "VAE_GNN_eval (demo_model (-2) True) = demo_model (-2) False \<and>
   list_all (\<lambda>l. \<not> training l) (layers (demo_model (-2) False)) \<and>
   (\<exists>mu logvar.
      encode_twice (demo_model (-2) False) (data_x (mol_to_graph ethanol))
        (data_edge_index (mol_to_graph ethanol)) demo_generator =
        Inr ((mu, logvar), (mu, logvar)) \<and> shape mu = [3, 1])"
proof -
  have ev: "list_all (\<lambda>l. \<not> training l) (layers (demo_model (-2) False))"
    by (simp add: demo_model_def demo_layer_def)
  obtain mu logvar where e:
    "encode (demo_model (-2) False) (data_x (mol_to_graph ethanol))
       (data_edge_index (mol_to_graph ethanol)) demo_generator = Inr ((mu, logvar), demo_generator)"
    "shape mu = [3, 1]"
    using demo_encode_eval_mode by blast
  have "encode_twice (demo_model (-2) False) (data_x (mol_to_graph ethanol))
        (data_edge_index (mol_to_graph ethanol)) demo_generator = Inr ((mu, logvar), (mu, logvar))"
    using encode_deterministic_in_eval_mode[OF ev, of "data_x (mol_to_graph ethanol)"
        "data_edge_index (mol_to_graph ethanol)" demo_generator] e(1)
    by simp
  then show ?thesis using ev e(2) demo_model_eval[of "-2" True] by blast
qed

section \<open>Where the layer departs from the specification\<close>

lemma incoming_ethanol_0: "incoming [(0, 1), (1, 0), (1, 2), (2, 1)] 0 = [1]"
  by (simp add: incoming_def)

text \<open>
  Claim C1 on the ethanol graph, in evaluation mode (no dropout), with all scores equal:
  node 0 has the single incoming edge from node 1, so a softmax over the incoming edges of
  each destination gives that edge the weight 1, and the specification's aggregate at
  node 0, head 0, is \<open>V\<^sub>1 = 1\<close>. The code takes the softmax along dimension 1 of the
  gathered scores, which is not the set of incoming edges of a node (it is the heads when
  \<open>node_dim = 0\<close>, all edges of the graph when \<open>node_dim = -2\<close>): the weight is 1/4 and the
  aggregate at \<open>[0, 0, 0]\<close> is 1/4.
\<close>

theorem attention_softmax_not_per_destination:
  "(\<exists>Q K V agg.
      project (lin_q (demo_layer (-2) False)) (demo_layer (-2) False)
        (data_x (mol_to_graph ethanol)) = Inr Q \<and>
      project (lin_k (demo_layer (-2) False)) (demo_layer (-2) False)
        (data_x (mol_to_graph ethanol)) = Inr K \<and>
      project (lin_v (demo_layer (-2) False)) (demo_layer (-2) False)
        (data_x (mol_to_graph ethanol)) = Inr V \<and>
      propagate (demo_layer (-2) False) (data_edge_index (mol_to_graph ethanol)) Q K V g =
        Inr (agg, g) \<and>
      elem agg [0, 0, 0] = 1 / 4 \<and>
      spec_aggregate 2 Q K V (edges_of (data_edge_index (mol_to_graph ethanol))) [0, 0, 0] = 1) \<and>
   (\<exists>Q K V agg.
      project (lin_q (demo_layer 0 False)) (demo_layer 0 False)
        (data_x (mol_to_graph ethanol)) = Inr Q \<and>
      project (lin_k (demo_layer 0 False)) (demo_layer 0 False)
        (data_x (mol_to_graph ethanol)) = Inr K \<and>
      project (lin_v (demo_layer 0 False)) (demo_layer 0 False)
        (data_x (mol_to_graph ethanol)) = Inr V \<and>
      propagate (demo_layer 0 False) (data_edge_index (mol_to_graph ethanol)) Q K V g =
        Inr (agg, g) \<and>
      elem agg [0, 0, 0] = 1 / 4 \<and>
      spec_aggregate 2 Q K V (edges_of (data_edge_index (mol_to_graph ethanol))) [0, 0, 0] = 1)"
proof -
  let ?V = "\<lparr>shape = [3, 4, 2], elem = (\<lambda>ix. 1 :: real)\<rparr>"
  have edges: "edges_of (data_edge_index (mol_to_graph ethanol)) = [(0, 1), (1, 0), (1, 2), (2, 1)]"
    by (simp add: edges_of_mol ethanol_def)
  have spec: "spec_aggregate 2 (zeros [3, 4, 2]) (zeros [3, 4, 2]) ?V
      (edges_of (data_edge_index (mol_to_graph ethanol))) [0, 0, 0] = 1"
    by (simp add: edges spec_aggregate_def incoming_ethanol_0 spec_normalized_score_def)
  obtain a1 where a1: "propagate (demo_layer (-2) False) (data_edge_index (mol_to_graph ethanol))
      (zeros [3, 4, 2]) (zeros [3, 4, 2]) ?V g = Inr (a1, g)" "elem a1 [0, 0, 0] = 1 / 4"
    using demo_agg_eval_m2 by blast
  obtain a2 where a2: "propagate (demo_layer 0 False) (data_edge_index (mol_to_graph ethanol))
      (zeros [3, 4, 2]) (zeros [3, 4, 2]) ?V g = Inr (a2, g)" "elem a2 [0, 0, 0] = 1 / 4"
    using demo_agg_eval_0 by blast
  show ?thesis
    using demo_Q demo_K demo_V a1 a2 spec by blast
qed

text \<open>
  Claim C2 at the layer sizes of the notebook's last cell (\<open>in_channels=9\<close>, 128 output
  channels, 4 heads): on one node with 9 features and an empty, well-shaped edge tensor the
  projections and the aggregation succeed and the residual addition \<open>out + x\<close> of a
  \<open>1 \<times> 128\<close> to a \<open>1 \<times> 9\<close> tensor raises, whatever the parameter values.
\<close>

theorem notebook_layer_raises:
  "bindE (GraphVAE_init (-2) 9 128 4 0.1 \<theta>)
     (\<lambda>l. GraphVAE_forward l \<lparr>shape = [1, 9], elem = f\<rparr> \<lparr>shape = [2, 0], elem = e\<rparr> g)
     = Inl RuntimeError \<and>
   bindE (GraphVAE_init 0 9 128 4 0.1 \<theta>)
     (\<lambda>l. GraphVAE_forward l \<lparr>shape = [1, 9], elem = f\<rparr> \<lparr>shape = [2, 0], elem = e\<rparr> g)
     = Inl RuntimeError"
  by (simp add: GraphVAE_init_def GraphVAE_forward_def project_def Linear_def view_infer_def
      nn_Linear_def propagate_def check_input_def lift_def wrap_dim_def edge_row_def
      index_select_def message_def broadcast_op_def sum_last_keepdim_def tmap_def
      softmax_dim1_def Dropout_def scatter_sum_def Let_def broadcast_shapes_def
      split del: if_split)

text \<open>
  Claim C8 for the graph \<open>mol_to_graph\<close> builds from a single atom: with no bond, the list
  of edges is empty, \<open>torch.tensor\<close> makes a 1-dimensional tensor of shape \<open>[0]\<close> of it,
  and \<open>propagate\<close> refuses an edge tensor that is not 2-dimensional. The layer
  \<open>GraphVAE(1, 2)\<close> raises on it, whatever its parameter values and \<open>node_dim\<close>.
\<close>

theorem single_atom_graph_raises:
  "shape (data_edge_index (mol_to_graph methane)) = [0] \<and>
   bindE (GraphVAE_init nd 1 2 4 0.1 \<theta>)
     (\<lambda>l. GraphVAE_forward l (data_x (mol_to_graph methane))
            (data_edge_index (mol_to_graph methane)) g)
     = Inl ValueError"
  by (simp add: GraphVAE_init_def GraphVAE_forward_def project_def Linear_def view_infer_def
      nn_Linear_def propagate_def check_input_def mol_to_graph_def methane_def torch_tensor_def
      tensor_t_def Let_def split del: if_split)

text \<open>The same for every molecule without bonds and every layer.\<close>

lemma no_bonds_forward_raises:
  assumes "bonds mol = []"
  shows "raises (GraphVAE_forward l (data_x (mol_to_graph mol))
                  (data_edge_index (mol_to_graph mol)) g)"
proof -
  have "shape (data_edge_index (mol_to_graph mol)) = [0]"
    using assms by (simp add: mol_to_graph_def torch_tensor_def tensor_t_def Let_def)
  then have "\<And>Q K V. propagate l (data_edge_index (mol_to_graph mol)) Q K V g = Inl ValueError"
    by (simp add: propagate_def check_input_def)
  then show ?thesis
    by (auto simp: GraphVAE_forward_def raises_def bindE_def split: sum.splits)
qed

text \<open>
  What does hold of claim C8: on an edge tensor of shape \<open>2 \<times> 0\<close> every position receives
  the zero aggregate, and the layer computes the residual-only path.
\<close>

lemma no_edges_residual_only:
  assumes q: "in_features (lin_q l) = Din" "out_features (lin_q l) = heads l * out_channels l"
    and k: "in_features (lin_k l) = Din" "out_features (lin_k l) = heads l * out_channels l"
    and v: "in_features (lin_v l) = Din" "out_features (lin_v l) = heads l * out_channels l"
    and x: "shape x = [N, Din]"
    and pos: "0 < heads l * out_channels l"
    and ei: "shape ei = [2, 0]"
    and nd: "node_dim l = -2 \<or> node_dim l = 0"
  shows "GraphVAE_forward l x ei g = bindE (residual_only_path l x) (\<lambda>y. Inr (y, g))"
proof -
  let ?s = "[N, heads l, out_channels l]"
  obtain Q where Q: "project (lin_q l) l x = Inr Q" "shape Q = ?s"
    using project_shape[of x N "lin_q l" l] q x pos by auto
  obtain K where K: "project (lin_k l) l x = Inr K" "shape K = ?s"
    using project_shape[of x N "lin_k l" l] k x pos by auto
  obtain V where V: "project (lin_v l) l x = Inr V" "shape V = ?s"
    using project_shape[of x N "lin_v l" l] v x pos by auto
  have rows: "edge_row ei 0 = []" "edge_row ei 1 = []" "edge_row ei (Suc 0) = []"
    using ei by (simp_all add: edge_row_def)
  obtain a where a: "wrap_dim (node_dim l) (length ?s) = Inr a" "a = 0 \<or> a = 1"
    using nd by (auto simp: wrap_dim_def)
  have ei2: "length (shape ei) = 2" "shape ei ! 0 = 2" using ei by simp_all
  have "\<exists>m :: real tensor. propagate l ei Q K V g =
           Inr (\<lparr>shape = ?s,
                 elem = (\<lambda>ix. \<Sum>e<length (edge_row ei 1).
                           if edge_row ei 1 ! e = int (ix ! a) then elem m (ix[a := e]) else 0)\<rparr>,
                if training l
                then advance (numel (butlast (?s[a := length (edge_row ei 1)]) @ [1])) g else g)"
    by (rule propagate_shape[OF Q(2) K(2) V(2) _ ei2 a(1)]) (simp_all add: rows)
  then have agg: "propagate l ei Q K V g = Inr (zeros ?s, g)"
    using a(2) by (auto simp: rows zeros_def)
  have flat: "view_infer (zeros ?s) [heads l * out_channels l] =
      Inr (zeros [N, heads l * out_channels l])"
    using pos by (simp add: view_infer_def zeros_def Let_def)
  show ?thesis
    using Q K V agg flat x
    by (auto simp: GraphVAE_forward_def residual_only_path_def bindE_def split: sum.splits)
qed

text \<open>
  A second way in which the layer fails on valid graphs when \<open>node_dim\<close> is the library's
  \<open>-2\<close>: the edges are gathered along the dimension of the heads, so an atom index that is
  not below the number of heads is out of range. For a chain of five atoms and four heads
  the layer raises with \<open>node_dim = -2\<close> and returns with \<open>node_dim = 0\<close>.
\<close>

lemma pentane_rows:
  "shape (data_edge_index (mol_to_graph pentane)) = [2, 8]"
  "edge_row (data_edge_index (mol_to_graph pentane)) 0 = [0, 1, 1, 2, 2, 3, 3, 4]"
  "edge_row (data_edge_index (mol_to_graph pentane)) 1 = [1, 0, 2, 1, 3, 2, 4, 3]"
  "edge_row (data_edge_index (mol_to_graph pentane)) (Suc 0) = [1, 0, 2, 1, 3, 2, 4, 3]"
  "shape (data_x (mol_to_graph pentane)) = [5, 1]"
  by (simp_all add: edge_row_def mol_to_graph_def pentane_def torch_tensor_def tensor_t_def
      upt_rec)

lemma head_dimension_index_error:
  "GraphVAE_forward (demo_layer (-2) b) (data_x (mol_to_graph pentane))
     (data_edge_index (mol_to_graph pentane)) g = Inl IndexError"
  "\<exists>y g'. GraphVAE_forward (demo_layer 0 b) (data_x (mol_to_graph pentane))
     (data_edge_index (mol_to_graph pentane)) g = Inr (y, g') \<and> shape y = [5, 2]"
proof -
  show "GraphVAE_forward (demo_layer (-2) b) (data_x (mol_to_graph pentane))
     (data_edge_index (mol_to_graph pentane)) g = Inl IndexError"
    by (simp add: GraphVAE_forward_def project_def Linear_def view_infer_def demo_layer_def
        nn_Linear_def propagate_def check_input_def lift_def wrap_dim_def pentane_rows
        index_select_def Let_def split del: if_split)
  have nd: "wrap_dim (node_dim (demo_layer 0 b)) 3 = Inr 0"
    by (simp add: wrap_dim_def demo_layer_def)
  show "\<exists>y g'. GraphVAE_forward (demo_layer 0 b) (data_x (mol_to_graph pentane))
     (data_edge_index (mol_to_graph pentane)) g = Inr (y, g') \<and> shape y = [5, 2]"
    using GraphVAE_forward_shape[of "demo_layer 0 b" 1 "data_x (mol_to_graph pentane)" 5
        "data_edge_index (mol_to_graph pentane)" 0 g, OF _ _ _ _ _ _ _ _ _ _ _ _ _ _ nd]
    by (simp add: demo_layer_def nn_Linear_def pentane_rows)
qed

end
